theory Spec2Isabelle
  imports Main
begin

section \<open>Exceptions\<close>

text \<open>
  The exceptions the services throw, each carrying its message. \<open>PrismaNotFound\<close> is the
  ORM's error for an update or delete whose \<open>where\<close> matches no row,
  \<open>PrismaValidation\<close> its rejection of a malformed query (an unknown column, a value
  outside an enum, a negative \<open>skip\<close>). Failures of the database connection are not
  modelled.
\<close>

datatype error =
    ForbiddenException string
  | NotFoundException string
  | BadRequestException string
  | PrismaNotFound string
  | PrismaValidation string

fun errMessage :: "error \<Rightarrow> string" where
  "errMessage (ForbiddenException m) = m"
| "errMessage (NotFoundException m) = m"
| "errMessage (BadRequestException m) = m"
| "errMessage (PrismaNotFound m) = m"
| "errMessage (PrismaValidation m) = m"

fun errName :: "error \<Rightarrow> string" where
  "errName (ForbiddenException m) = ''ForbiddenException''"
| "errName (NotFoundException m) = ''NotFoundException''"
| "errName (BadRequestException m) = ''BadRequestException''"
| "errName (PrismaNotFound m) = ''PrismaClientKnownRequestError''"
| "errName (PrismaValidation m) = ''PrismaClientValidationError''"

section \<open>PermissionUtils (common/utils/permission.util)\<close>

text \<open>
  \<open>enum UserRole\<close>: the role strings. A user's roles are an array of strings;
  \<open>roles.includes(r)\<close> is membership in the list, \<open>roles.some(p)\<close> is \<open>list_ex\<close>.
\<close>

definition ADMIN :: string where "ADMIN = ''admin''"
definition STAFF :: string where "STAFF = ''staff''"
definition SUPPORT_AGENT :: string where "SUPPORT_AGENT = ''support''"
definition DEVELOPER :: string where "DEVELOPER = ''developer''"
definition USER :: string where "USER = ''user''"

definition arr_includes :: "string list \<Rightarrow> string \<Rightarrow> bool" where
  "arr_includes roles r = (r \<in> set roles)"

definition isAdmin :: "string list \<Rightarrow> bool" where
  "isAdmin roles = arr_includes roles ADMIN"

definition isStaff :: "string list \<Rightarrow> bool" where
  "isStaff roles =
     list_ex (\<lambda>role. role = ADMIN \<or> role = STAFF \<or> role = SUPPORT_AGENT \<or> role = DEVELOPER) roles"

definition isSupportAgent :: "string list \<Rightarrow> bool" where
  "isSupportAgent roles = (arr_includes roles SUPPORT_AGENT \<or> arr_includes roles ADMIN)"

definition isDeveloper :: "string list \<Rightarrow> bool" where
  "isDeveloper roles = (arr_includes roles DEVELOPER \<or> arr_includes roles ADMIN)"

definition requireStaff :: "string list \<Rightarrow> error + unit" where
  "requireStaff roles =
     (if \<not> isStaff roles then Inl (ForbiddenException ''Access denied. Staff role required.'')
      else Inr ())"

text \<open>The permission level is a JavaScript number; the five literals are integers.\<close>

definition getPermissionLevel :: "string list \<Rightarrow> int" where
  "getPermissionLevel roles =
     (if isDeveloper roles then 4
      else if isAdmin roles then 3
      else if arr_includes roles STAFF then 2
      else if isSupportAgent roles then 1
      else 0)"

section \<open>Data model (the migration's tables)\<close>

text \<open>
  The enums and tables of the SQL migration. A timestamp is the number of milliseconds
  since the epoch (what a JavaScript \<open>Date\<close> holds); a nullable column is an
  \<open>option\<close>. Each record keeps the columns that the modelled services read or write;
  a table is the list of its rows.
\<close>

datatype TicketStatus = OPEN | IN_PROGRESS | RESOLVED | CLOSED
datatype Priority = LOW | NORMAL | HIGH | URGENT
datatype ReopenStatus = PENDING | APPROVED | REJECTED
datatype UserStatus = ACTIVE | INACTIVE | SUSPENDED | DELETED

type_synonym timestamp = int

record user =
  u_id :: string
  u_email :: string
  u_name :: string
  u_roles :: "string list"
  u_status :: UserStatus
  u_suspensionReason :: "string option"
  u_suspendedAt :: "timestamp option"
  u_metadata :: "string option"
  u_createdAt :: timestamp
  u_updatedAt :: timestamp

record ticket =
  t_id :: string
  t_title :: string
  t_description :: "string option"
  t_status :: TicketStatus
  t_priority :: Priority
  t_createdById :: "string option"
  t_assignedToId :: "string option"
  t_closedAt :: "timestamp option"
  t_fileUrls :: "string list"
  t_createdAt :: timestamp
  t_updatedAt :: timestamp

record reply =
  rp_id :: string
  rp_ticketId :: string
  rp_authorId :: "string option"
  rp_content :: string
  rp_isInternal :: bool
  rp_fileUrls :: "string list"
  rp_createdAt :: timestamp
  rp_updatedAt :: timestamp

record reopenRequest =
  rr_id :: string
  rr_ticketId :: string
  rr_requestedById :: "string option"
  rr_reason :: string
  rr_status :: ReopenStatus
  rr_reviewedById :: "string option"
  rr_reviewedAt :: "timestamp option"
  rr_createdAt :: timestamp
  rr_updatedAt :: timestamp

record contactMessage =
  cm_id :: string
  cm_name :: string
  cm_email :: string
  cm_subject :: string
  cm_message :: string
  cm_createdAt :: timestamp
  cm_updatedAt :: timestamp

text \<open>
  The process log: every \<open>logger\<close> call appends one entry (level, message, further
  arguments). It is process output, not part of the database.
\<close>

datatype logLevel = LInfo | LLog | LError

datatype logEntry = LogEntry logLevel string "string list"

record sys =
  users :: "user list"
  tickets :: "ticket list"
  replies :: "reply list"
  reopenRequests :: "reopenRequest list"
  contactMessages :: "contactMessage list"
  plog :: "logEntry list"

text \<open>The persistent state is the five tables; the process log is not part of it.\<close>

definition persistent ::
  "sys \<Rightarrow> user list \<times> ticket list \<times> reply list \<times> reopenRequest list \<times> contactMessage list" where
  "persistent s = (users s, tickets s, replies s, reopenRequests s, contactMessages s)"

definition logger :: "logLevel \<Rightarrow> string \<Rightarrow> string list \<Rightarrow> sys \<Rightarrow> sys" where
  "logger lv msg args s = s\<lparr>plog := plog s @ [LogEntry lv msg args]\<rparr>"

section \<open>The ORM's calls\<close>

text \<open>
  \<open>findUnique\<close> returns the row with the given primary key or null; \<open>update\<close> changes
  the row with that key and throws when there is none; \<open>delete\<close> removes it and throws
  when there is none; \<open>create\<close> appends a row. The primary key of a new row is generated
  by the ORM and is a parameter of the model, as is the clock reading \<open>now\<close> (all
  \<open>new Date()\<close> of one call are the same instant). The \<open>updatedAt\<close> column is set to
  \<open>now\<close> by every update. Foreign keys are not checked: the ids a service writes are those
  of authenticated callers or of rows it has just read.
\<close>

definition rowFind :: "('a \<Rightarrow> string) \<Rightarrow> string \<Rightarrow> 'a list \<Rightarrow> 'a option" where
  "rowFind key i rows = find (\<lambda>r. key r = i) rows"

definition rowUpdate :: "('a \<Rightarrow> string) \<Rightarrow> string \<Rightarrow> ('a \<Rightarrow> 'a) \<Rightarrow> 'a list \<Rightarrow> 'a list" where
  "rowUpdate key i f rows = map (\<lambda>r. if key r = i then f r else r) rows"

definition rowDelete :: "('a \<Rightarrow> string) \<Rightarrow> string \<Rightarrow> 'a list \<Rightarrow> 'a list" where
  "rowDelete key i rows = filter (\<lambda>r. key r \<noteq> i) rows"

definition notFoundMsg :: string where
  "notFoundMsg = ''An operation failed because it depends on one or more records that were required but not found.''"

definition user_findUnique :: "string \<Rightarrow> sys \<Rightarrow> user option" where
  "user_findUnique i s = rowFind u_id i (users s)"

definition user_update ::
  "string \<Rightarrow> (user \<Rightarrow> user) \<Rightarrow> timestamp \<Rightarrow> sys \<Rightarrow> (error + user) \<times> sys" where
  "user_update i f now s =
     (case user_findUnique i s of
        None \<Rightarrow> (Inl (PrismaNotFound notFoundMsg), s)
      | Some u \<Rightarrow>
          (Inr ((f u)\<lparr>u_updatedAt := now\<rparr>),
           s\<lparr>users := rowUpdate u_id i (\<lambda>r. (f r)\<lparr>u_updatedAt := now\<rparr>) (users s)\<rparr>))"

definition supportTicket_findUnique :: "string \<Rightarrow> sys \<Rightarrow> ticket option" where
  "supportTicket_findUnique i s = rowFind t_id i (tickets s)"

definition supportTicket_update ::
  "string \<Rightarrow> (ticket \<Rightarrow> ticket) \<Rightarrow> timestamp \<Rightarrow> sys \<Rightarrow> (error + ticket) \<times> sys" where
  "supportTicket_update i f now s =
     (case supportTicket_findUnique i s of
        None \<Rightarrow> (Inl (PrismaNotFound notFoundMsg), s)
      | Some t \<Rightarrow>
          (Inr ((f t)\<lparr>t_updatedAt := now\<rparr>),
           s\<lparr>tickets := rowUpdate t_id i (\<lambda>r. (f r)\<lparr>t_updatedAt := now\<rparr>) (tickets s)\<rparr>))"

definition ticketReopenRequest_findUnique :: "string \<Rightarrow> sys \<Rightarrow> reopenRequest option" where
  "ticketReopenRequest_findUnique i s = rowFind rr_id i (reopenRequests s)"

definition ticketReopenRequest_findFirst ::
  "(reopenRequest \<Rightarrow> bool) \<Rightarrow> sys \<Rightarrow> reopenRequest option" where
  "ticketReopenRequest_findFirst wh s = find wh (reopenRequests s)"

definition ticketReopenRequest_update ::
  "string \<Rightarrow> (reopenRequest \<Rightarrow> reopenRequest) \<Rightarrow> timestamp \<Rightarrow> sys
     \<Rightarrow> (error + reopenRequest) \<times> sys" where
  "ticketReopenRequest_update i f now s =
     (case ticketReopenRequest_findUnique i s of
        None \<Rightarrow> (Inl (PrismaNotFound notFoundMsg), s)
      | Some r \<Rightarrow>
          (Inr ((f r)\<lparr>rr_updatedAt := now\<rparr>),
           s\<lparr>reopenRequests :=
               rowUpdate rr_id i (\<lambda>x. (f x)\<lparr>rr_updatedAt := now\<rparr>) (reopenRequests s)\<rparr>))"

text \<open>
  \<open>ticketReopenRequest.create\<close> with \<open>data: {ticketId, requestedById, reason}\<close>: the
  other columns take the migration's defaults (\<open>status\<close> DEFAULT 'PENDING', the
  reviewer columns null, \<open>createdAt\<close> CURRENT_TIMESTAMP).
\<close>

definition ticketReopenRequest_create ::
  "string \<Rightarrow> string \<Rightarrow> string \<Rightarrow> string \<Rightarrow> timestamp \<Rightarrow> sys \<Rightarrow> reopenRequest \<times> sys" where
  "ticketReopenRequest_create newId ticketId requestedById reason now s =
     (let r = \<lparr>rr_id = newId, rr_ticketId = ticketId, rr_requestedById = Some requestedById,
                rr_reason = reason, rr_status = PENDING, rr_reviewedById = None,
                rr_reviewedAt = None, rr_createdAt = now, rr_updatedAt = now\<rparr>
      in (r, s\<lparr>reopenRequests := reopenRequests s @ [r]\<rparr>))"

text \<open>\<open>ticketReply.create\<close>; \<open>fileUrls\<close> takes its default, the empty array.\<close>

definition ticketReply_create ::
  "string \<Rightarrow> string \<Rightarrow> string \<Rightarrow> string \<Rightarrow> bool \<Rightarrow> timestamp \<Rightarrow> sys \<Rightarrow> reply \<times> sys" where
  "ticketReply_create newId ticketId authorId content isInternal now s =
     (let r = \<lparr>rp_id = newId, rp_ticketId = ticketId, rp_authorId = Some authorId,
                rp_content = content, rp_isInternal = isInternal, rp_fileUrls = [],
                rp_createdAt = now, rp_updatedAt = now\<rparr>
      in (r, s\<lparr>replies := replies s @ [r]\<rparr>))"

definition contactMessage_findUnique :: "string \<Rightarrow> sys \<Rightarrow> contactMessage option" where
  "contactMessage_findUnique i s = rowFind cm_id i (contactMessages s)"

definition contactMessage_delete :: "string \<Rightarrow> sys \<Rightarrow> (error + contactMessage) \<times> sys" where
  "contactMessage_delete i s =
     (case contactMessage_findUnique i s of
        None \<Rightarrow> (Inl (PrismaNotFound notFoundMsg), s)
      | Some m \<Rightarrow> (Inr m, s\<lparr>contactMessages := rowDelete cm_id i (contactMessages s)\<rparr>))"

section \<open>SupportTicketsService\<close>

text \<open>
  A service method returns its value or the exception it throws, together with the state
  it leaves: a method that throws after a write leaves the write in place, since the
  services open no transaction. Each method is a \<open>try\<close> body and its \<open>catch\<close>:
  \<open>catchLog silent msg\<close> rethrows every exception, after logging \<open>msg\<close> unless the
  exception is one of those the \<open>catch\<close> rethrows at once.
\<close>

fun isForbidden :: "error \<Rightarrow> bool" where
  "isForbidden (ForbiddenException m) = True"
| "isForbidden e = False"

fun isNotFound :: "error \<Rightarrow> bool" where
  "isNotFound (NotFoundException m) = True"
| "isNotFound e = False"

fun isBadRequest :: "error \<Rightarrow> bool" where
  "isBadRequest (BadRequestException m) = True"
| "isBadRequest e = False"

definition catchLog ::
  "(error \<Rightarrow> bool) \<Rightarrow> string \<Rightarrow> (error + 'a) \<times> sys \<Rightarrow> (error + 'a) \<times> sys" where
  "catchLog silent msg r =
     (case r of
        (Inl e, s) \<Rightarrow> if silent e then (Inl e, s) else (Inl e, logger LError msg [errMessage e] s)
      | (Inr v, s) \<Rightarrow> (Inr v, s))"

text \<open>JavaScript truthiness of an optional string: undefined, null and '' are falsy.\<close>

definition truthyStr :: "string option \<Rightarrow> bool" where
  "truthyStr x = (case x of None \<Rightarrow> False | Some v \<Rightarrow> v \<noteq> [])"

subsection \<open>getTicketById\<close>

text \<open>
  The relations the query includes (creator, assignee, replies, reopen requests) are joined
  data of other rows and are left out of the returned ticket.
\<close>

definition getTicketById_try ::
  "string \<Rightarrow> string \<Rightarrow> string list \<Rightarrow> sys \<Rightarrow> (error + ticket) \<times> sys" where
  "getTicketById_try ticketId userId userRoles s =
     (case supportTicket_findUnique ticketId s of
        None \<Rightarrow> (Inl (NotFoundException ''Ticket not found''), s)
      | Some ticket \<Rightarrow>
          if \<not> isStaff userRoles \<and> t_createdById ticket \<noteq> Some userId
          then (Inl (ForbiddenException ''You can only view your own tickets''), s)
          else (Inr ticket, s))"

definition getTicketById ::
  "string \<Rightarrow> string \<Rightarrow> string list \<Rightarrow> sys \<Rightarrow> (error + ticket) \<times> sys" where
  "getTicketById ticketId userId userRoles s =
     catchLog (\<lambda>e. isNotFound e \<or> isForbidden e)
       (''Failed to get ticket '' @ ticketId @ '' for user '' @ userId)
       (getTicketById_try ticketId userId userRoles s)"

subsection \<open>getTickets\<close>

datatype sortOrder = Asc | Desc

record TicketQueryDto =
  q_status :: "TicketStatus option"
  q_priority :: "Priority option"
  q_search :: "string option"
  q_assigneeId :: "string option"
  q_creatorId :: "string option"
  q_page :: "int option"
  q_limit :: "int option"
  q_sortBy :: "string option"
  q_sortOrder :: "sortOrder option"

text \<open>The \<open>where\<close> object the method builds; \<open>w_OR\<close> is the search term of its OR clause.\<close>

record ticketWhere =
  w_createdById :: "string option"
  w_status :: "TicketStatus option"
  w_assignedToId :: "string option"
  w_priority :: "Priority option"
  w_OR :: "string option"

definition emptyWhere :: ticketWhere where
  "emptyWhere = \<lparr>w_createdById = None, w_status = None, w_assignedToId = None,
                  w_priority = None, w_OR = None\<rparr>"

text \<open>
  \<open>contains\<close> with \<open>mode: 'insensitive'\<close>: substring search ignoring case, here the
  case of the ASCII letters.
\<close>

definition toLowerChar :: "char \<Rightarrow> char" where
  "toLowerChar c =
     (let n = (of_char c :: nat) in if 65 \<le> n \<and> n \<le> 90 then char_of (n + 32) else c)"

fun startsWith :: "string \<Rightarrow> string \<Rightarrow> bool" where
  "startsWith xs [] = True"
| "startsWith [] (y # ys) = False"
| "startsWith (x # xs) (y # ys) = (x = y \<and> startsWith xs ys)"

fun containsStr :: "string \<Rightarrow> string \<Rightarrow> bool" where
  "containsStr [] p = (p = [])"
| "containsStr (x # xs) p = (startsWith (x # xs) p \<or> containsStr xs p)"

definition containsInsensitive :: "string \<Rightarrow> string \<Rightarrow> bool" where
  "containsInsensitive txt p = containsStr (map toLowerChar txt) (map toLowerChar p)"

definition whereMatches :: "ticketWhere \<Rightarrow> ticket \<Rightarrow> bool" where
  "whereMatches w t =
     ((case w_createdById w of None \<Rightarrow> True | Some c \<Rightarrow> t_createdById t = Some c)
      \<and> (case w_status w of None \<Rightarrow> True | Some st \<Rightarrow> t_status t = st)
      \<and> (case w_assignedToId w of None \<Rightarrow> True | Some a \<Rightarrow> t_assignedToId t = Some a)
      \<and> (case w_priority w of None \<Rightarrow> True | Some p \<Rightarrow> t_priority t = p)
      \<and> (case w_OR w of
            None \<Rightarrow> True
          | Some q \<Rightarrow>
              containsInsensitive (t_title t) q
              \<or> (case t_description t of None \<Rightarrow> False | Some d \<Rightarrow> containsInsensitive d q)))"

definition supportTicket_count :: "ticketWhere \<Rightarrow> sys \<Rightarrow> int" where
  "supportTicket_count w s = int (length (filter (whereMatches w) (tickets s)))"

text \<open>
  \<open>findMany\<close> with \<open>where\<close>, \<open>orderBy: {[sortBy]: sortOrder}\<close>, \<open>skip\<close> and \<open>take\<close>.
  How the database orders rows by a column is not part of the repository: \<open>orderKey\<close>
  gives, for a column name, the rank of a row in ascending order, and \<open>None\<close> for a name
  that is not a column, which the ORM rejects. The ORM also rejects a negative \<open>skip\<close>;
  a negative \<open>take\<close> takes from the end of the ordered rows.
\<close>

definition supportTicket_findMany ::
  "ticketWhere \<Rightarrow> string \<Rightarrow> sortOrder \<Rightarrow> int \<Rightarrow> int \<Rightarrow> (string \<Rightarrow> (ticket \<Rightarrow> int) option) \<Rightarrow> sys
     \<Rightarrow> error + ticket list" where
  "supportTicket_findMany w sortBy ord sk tk orderKey s =
     (case orderKey sortBy of
        None \<Rightarrow> Inl (PrismaValidation ''Unknown argument in orderBy'')
      | Some k \<Rightarrow>
          if sk < 0 then Inl (PrismaValidation ''Invalid value for skip argument'')
          else
            (let rows = filter (whereMatches w) (tickets s);
                 ordered = (case ord of Asc \<Rightarrow> sort_key k rows
                                      | Desc \<Rightarrow> sort_key (\<lambda>t. - k t) rows)
             in Inr (if 0 \<le> tk then take (nat tk) (drop (nat sk) ordered)
                     else rev (take (nat (- tk)) (drop (nat sk) (rev ordered))))))"

record ticketPage =
  tp_tickets :: "ticket list"
  tp_page :: int
  tp_limit :: int
  tp_total :: int
  tp_totalPages :: "int option"

text \<open>\<open>Math.ceil(total / limit)\<close>; \<open>None\<close> when \<open>limit\<close> is 0 and the quotient is not finite.\<close>

definition ceilDiv :: "int \<Rightarrow> int \<Rightarrow> int option" where
  "ceilDiv n limit = (if limit = 0 then None else Some (- ((- n) div limit)))"

definition getTickets_try ::
  "string \<Rightarrow> TicketQueryDto \<Rightarrow> string list \<Rightarrow> (string \<Rightarrow> (ticket \<Rightarrow> int) option) \<Rightarrow> sys
     \<Rightarrow> (error + ticketPage) \<times> sys" where
  "getTickets_try userId query userRoles orderKey s =
     (let page = (case q_page query of None \<Rightarrow> 1 | Some p \<Rightarrow> p);
          limit = (case q_limit query of None \<Rightarrow> 10 | Some l \<Rightarrow> l);
          sortBy = (case q_sortBy query of None \<Rightarrow> ''createdAt'' | Some f \<Rightarrow> f);
          ord = (case q_sortOrder query of None \<Rightarrow> Desc | Some d \<Rightarrow> d);
          w1 = (if \<not> isStaff userRoles then emptyWhere\<lparr>w_createdById := Some userId\<rparr>
                else (case q_status query of
                        None \<Rightarrow> emptyWhere
                      | Some st \<Rightarrow> emptyWhere\<lparr>w_status := Some st\<rparr>))
      in if truthyStr (q_assigneeId query) \<and> \<not> isStaff userRoles
            \<and> q_assigneeId query \<noteq> Some userId
         then (Inl (ForbiddenException ''You can only filter tickets assigned to yourself''), s)
         else
           (let w2 = (if truthyStr (q_assigneeId query)
                      then w1\<lparr>w_assignedToId := q_assigneeId query\<rparr> else w1)
            in if truthyStr (q_creatorId query) \<and> \<not> isStaff userRoles
                  \<and> q_creatorId query \<noteq> Some userId
               then (Inl (ForbiddenException ''You can only filter tickets created by yourself''), s)
               else
                 (let w3 = (if truthyStr (q_creatorId query)
                            then w2\<lparr>w_createdById := q_creatorId query\<rparr> else w2);
                      w4 = (case q_priority query of
                              None \<Rightarrow> w3
                            | Some p \<Rightarrow> w3\<lparr>w_priority := Some p\<rparr>);
                      w5 = (if truthyStr (q_search query) then w4\<lparr>w_OR := q_search query\<rparr>
                            else w4);
                      totalCount = supportTicket_count w5 s
                  in case supportTicket_findMany w5 sortBy ord ((page - 1) * limit) limit
                            orderKey s of
                       Inl e \<Rightarrow> (Inl e, s)
                     | Inr rows \<Rightarrow>
                         (Inr \<lparr>tp_tickets = rows, tp_page = page, tp_limit = limit,
                               tp_total = totalCount, tp_totalPages = ceilDiv totalCount limit\<rparr>, s))))"

definition getTickets ::
  "string \<Rightarrow> TicketQueryDto \<Rightarrow> string list \<Rightarrow> (string \<Rightarrow> (ticket \<Rightarrow> int) option) \<Rightarrow> sys
     \<Rightarrow> (error + ticketPage) \<times> sys" where
  "getTickets userId query userRoles orderKey s =
     catchLog (\<lambda>e. False) (''Failed to get tickets for user '' @ userId)
       (getTickets_try userId query userRoles orderKey s)"

text \<open>
  The ranks of the four columns the DTO documents for \<open>sortBy\<close>: the two timestamps, and
  the two enums in the order of their declaration.
\<close>

fun priorityRank :: "Priority \<Rightarrow> int" where
  "priorityRank LOW = 0" | "priorityRank NORMAL = 1" | "priorityRank HIGH = 2"
| "priorityRank URGENT = 3"

fun statusRank :: "TicketStatus \<Rightarrow> int" where
  "statusRank OPEN = 0" | "statusRank IN_PROGRESS = 1" | "statusRank RESOLVED = 2"
| "statusRank CLOSED = 3"

definition documentedOrderKey :: "string \<Rightarrow> (ticket \<Rightarrow> int) option" where
  "documentedOrderKey c =
     (if c = ''createdAt'' then Some t_createdAt
      else if c = ''updatedAt'' then Some t_updatedAt
      else if c = ''priority'' then Some (\<lambda>t. priorityRank (t_priority t))
      else if c = ''status'' then Some (\<lambda>t. statusRank (t_status t))
      else None)"

subsection \<open>assignTicket\<close>

definition assignTicket_try ::
  "string \<Rightarrow> string option \<Rightarrow> string \<Rightarrow> string list \<Rightarrow> timestamp \<Rightarrow> sys
     \<Rightarrow> (error + ticket) \<times> sys" where
  "assignTicket_try ticketId assigneeId userId userRoles now s =
     (case requireStaff userRoles of
        Inl e \<Rightarrow> (Inl e, s)
      | Inr _ \<Rightarrow>
          (case supportTicket_findUnique ticketId s of
             None \<Rightarrow> (Inl (NotFoundException ''Ticket not found''), s)
           | Some ticket \<Rightarrow>
               (case (case assigneeId of
                        None \<Rightarrow> Inr ()
                      | Some a \<Rightarrow>
                          if a = [] then Inr ()
                          else (case user_findUnique a s of
                                  None \<Rightarrow> Inl (NotFoundException ''Assignee not found'')
                                | Some assignee \<Rightarrow>
                                    if \<not> isStaff (u_roles assignee)
                                    then Inl (BadRequestException
                                                ''Assignee must be a staff member'')
                                    else Inr ())) of
                  Inl e \<Rightarrow> (Inl e, s)
                | Inr _ \<Rightarrow>
                    (case supportTicket_update ticketId
                            (\<lambda>t. t\<lparr>t_assignedToId :=
                                      (if truthyStr assigneeId then assigneeId else None),
                                    t_status :=
                                      (if truthyStr assigneeId then IN_PROGRESS else OPEN)\<rparr>)
                            now s of
                       (Inl e, s1) \<Rightarrow> (Inl e, s1)
                     | (Inr updatedTicket, s1) \<Rightarrow>
                         (Inr updatedTicket,
                          logger LInfo
                            (''Ticket '' @ ticketId @ '' assigned to ''
                               @ (case assigneeId of
                                    None \<Rightarrow> ''nobody''
                                  | Some a \<Rightarrow> if a = [] then ''nobody'' else a)
                               @ '' by user '' @ userId) [] s1)))))"

definition assignTicket ::
  "string \<Rightarrow> string option \<Rightarrow> string \<Rightarrow> string list \<Rightarrow> timestamp \<Rightarrow> sys
     \<Rightarrow> (error + ticket) \<times> sys" where
  "assignTicket ticketId assigneeId userId userRoles now s =
     catchLog (\<lambda>e. isForbidden e \<or> isNotFound e \<or> isBadRequest e)
       (''Failed to assign ticket '' @ ticketId @ '' for user '' @ userId)
       (assignTicket_try ticketId assigneeId userId userRoles now s)"

subsection \<open>createReopenRequest\<close>

record CreateReopenRequestDto =
  dto_reason :: string

text \<open>
  The method calls \<open>getTicketById(ticketId, userId)\<close> without roles, so with the
  default \<open>userRoles = []\<close>.
\<close>

definition createReopenRequest_try ::
  "string \<Rightarrow> string \<Rightarrow> CreateReopenRequestDto \<Rightarrow> string \<Rightarrow> timestamp \<Rightarrow> sys
     \<Rightarrow> (error + reopenRequest) \<times> sys" where
  "createReopenRequest_try ticketId userId dto newId now s =
     (case getTicketById ticketId userId [] s of
        (Inl e, s1) \<Rightarrow> (Inl e, s1)
      | (Inr ticket, s1) \<Rightarrow>
          if t_createdById ticket \<noteq> Some userId
          then (Inl (ForbiddenException ''You can only reopen your own tickets''), s1)
          else if t_status ticket \<noteq> CLOSED
          then (Inl (BadRequestException ''Only closed tickets can be reopened''), s1)
          else
            (case ticketReopenRequest_findFirst
                    (\<lambda>r. rr_ticketId r = ticketId \<and> rr_status r = PENDING) s1 of
               Some existingRequest \<Rightarrow>
                 (Inl (BadRequestException
                         ''A reopen request is already pending for this ticket''), s1)
             | None \<Rightarrow>
                 (case ticketReopenRequest_create newId ticketId userId (dto_reason dto) now s1 of
                    (reopenRequest, s2) \<Rightarrow>
                      (Inr reopenRequest,
                       logger LInfo
                         (''Reopen request created for ticket '' @ ticketId
                            @ '' by user '' @ userId) [] s2))))"

definition createReopenRequest ::
  "string \<Rightarrow> string \<Rightarrow> CreateReopenRequestDto \<Rightarrow> string \<Rightarrow> timestamp \<Rightarrow> sys
     \<Rightarrow> (error + reopenRequest) \<times> sys" where
  "createReopenRequest ticketId userId dto newId now s =
     catchLog (\<lambda>e. isForbidden e \<or> isNotFound e \<or> isBadRequest e)
       (''Failed to create reopen request for ticket '' @ ticketId @ '' by user '' @ userId)
       (createReopenRequest_try ticketId userId dto newId now s)"

subsection \<open>processReopenRequest\<close>

definition processReopenRequest_try ::
  "string \<Rightarrow> bool \<Rightarrow> string \<Rightarrow> string list \<Rightarrow> timestamp \<Rightarrow> sys
     \<Rightarrow> (error + reopenRequest) \<times> sys" where
  "processReopenRequest_try requestId approve userId userRoles now s =
     (case requireStaff userRoles of
        Inl e \<Rightarrow> (Inl e, s)
      | Inr _ \<Rightarrow>
          (case ticketReopenRequest_findUnique requestId s of
             None \<Rightarrow> (Inl (NotFoundException ''Reopen request not found''), s)
           | Some reopenRequest \<Rightarrow>
               if rr_status reopenRequest \<noteq> PENDING
               then (Inl (BadRequestException
                            ''This reopen request has already been processed''), s)
               else
                 (let newStatus = (if approve then APPROVED else REJECTED)
                  in case ticketReopenRequest_update requestId
                            (\<lambda>r. r\<lparr>rr_status := newStatus, rr_reviewedById := Some userId,
                                    rr_reviewedAt := Some now\<rparr>) now s of
                       (Inl e, s1) \<Rightarrow> (Inl e, s1)
                     | (Inr updatedRequest, s1) \<Rightarrow>
                         if approve then
                           (case supportTicket_update (rr_ticketId reopenRequest)
                                   (\<lambda>t. t\<lparr>t_status := OPEN, t_closedAt := None\<rparr>) now s1 of
                              (Inl e, s2) \<Rightarrow> (Inl e, s2)
                            | (Inr _, s2) \<Rightarrow>
                                (Inr updatedRequest,
                                 logger LInfo
                                   (''Ticket '' @ rr_ticketId reopenRequest
                                      @ '' reopened via request '' @ requestId) [] s2))
                         else
                           (Inr updatedRequest,
                            logger LInfo
                              (''Reopen request '' @ requestId @ '' rejected'') [] s1))))"

definition processReopenRequest ::
  "string \<Rightarrow> bool \<Rightarrow> string \<Rightarrow> string list \<Rightarrow> timestamp \<Rightarrow> sys
     \<Rightarrow> (error + reopenRequest) \<times> sys" where
  "processReopenRequest requestId approve userId userRoles now s =
     catchLog (\<lambda>e. isForbidden e \<or> isNotFound e \<or> isBadRequest e)
       (''Failed to process reopen request '' @ requestId @ '' for user '' @ userId)
       (processReopenRequest_try requestId approve userId userRoles now s)"

section \<open>AdminSupportTicketService and its controller\<close>

text \<open>
  The admin service and controller take statuses and priorities as strings; the ORM
  accepts a string for an enum column only if it names one of the enum's values.
\<close>

fun statusStr :: "TicketStatus \<Rightarrow> string" where
  "statusStr OPEN = ''OPEN''"
| "statusStr IN_PROGRESS = ''IN_PROGRESS''"
| "statusStr RESOLVED = ''RESOLVED''"
| "statusStr CLOSED = ''CLOSED''"

fun priorityStr :: "Priority \<Rightarrow> string" where
  "priorityStr LOW = ''LOW''"
| "priorityStr NORMAL = ''NORMAL''"
| "priorityStr HIGH = ''HIGH''"
| "priorityStr URGENT = ''URGENT''"

definition parseTicketStatus :: "string \<Rightarrow> TicketStatus option" where
  "parseTicketStatus x =
     (if x = ''OPEN'' then Some OPEN
      else if x = ''IN_PROGRESS'' then Some IN_PROGRESS
      else if x = ''RESOLVED'' then Some RESOLVED
      else if x = ''CLOSED'' then Some CLOSED
      else None)"

definition parsePriority :: "string \<Rightarrow> Priority option" where
  "parsePriority x =
     (if x = ''LOW'' then Some LOW
      else if x = ''NORMAL'' then Some NORMAL
      else if x = ''HIGH'' then Some HIGH
      else if x = ''URGENT'' then Some URGENT
      else None)"

subsection \<open>logAdminAction\<close>

text \<open>
  The private helper: a \<open>try\<close> around one \<open>logger.log\<close> call, whose \<open>catch\<close> logs
  the failure. The \<open>changes\<close> object is passed to the logger as rendered fields. The
  method holds no ORM call.
\<close>

definition logAdminAction ::
  "string \<Rightarrow> string \<Rightarrow> string \<Rightarrow> string list \<Rightarrow> sys \<Rightarrow> (error + unit) \<times> sys" where
  "logAdminAction adminUserId action resourceId changes s =
     (Inr (),
      logger LLog
        (''Admin action: '' @ action @ '' on resource '' @ resourceId @ '' by admin ''
           @ adminUserId) changes s)"

subsection \<open>addInternalNote\<close>

text \<open>
  The note is a reply marked internal. The method returns fields of the created reply
  (the author's email and name, joined from \<open>users\<close>, are left out) and the note type.
\<close>

definition addInternalNote ::
  "string \<Rightarrow> string \<Rightarrow> string \<Rightarrow> string \<Rightarrow> string \<Rightarrow> timestamp \<Rightarrow> sys
     \<Rightarrow> (error + reply \<times> string) \<times> sys" where
  "addInternalNote ticketId content adminUserId noteType newId now s =
     catchLog (\<lambda>e. False) (''Failed to add internal note to ticket '' @ ticketId @ '':'')
       (case ticketReply_create newId ticketId adminUserId
               (''[INTERNAL NOTE - '' @ noteType @ ''] '' @ content) True now s of
          (r, s1) \<Rightarrow>
            (Inr (r, noteType),
             logger LLog
               (''Internal note added to ticket '' @ ticketId @ '' by admin '' @ adminUserId)
               [] s1))"

subsection \<open>updateTicketStatus\<close>

text \<open>
  The \<open>updateData\<close> object: a field that is not set is \<open>None\<close>; \<open>closedAt\<close> can be
  set to a date or to null.
\<close>

record updateData =
  ud_updatedAt :: timestamp
  ud_status :: "string option"
  ud_closedAt :: "timestamp option option"
  ud_priority :: "string option"

definition applyUpdateData :: "updateData \<Rightarrow> ticket \<Rightarrow> error + ticket" where
  "applyUpdateData d t =
     (case (case ud_status d of
              None \<Rightarrow> Inr t
            | Some x \<Rightarrow>
                (case parseTicketStatus x of
                   None \<Rightarrow> Inl (PrismaValidation ''Invalid value for argument status'')
                 | Some st \<Rightarrow> Inr (t\<lparr>t_status := st\<rparr>))) of
        Inl e \<Rightarrow> Inl e
      | Inr t1 \<Rightarrow>
          (case (case ud_priority d of
                   None \<Rightarrow> Inr t1
                 | Some x \<Rightarrow>
                     (case parsePriority x of
                        None \<Rightarrow> Inl (PrismaValidation ''Invalid value for argument priority'')
                      | Some p \<Rightarrow> Inr (t1\<lparr>t_priority := p\<rparr>))) of
             Inl e \<Rightarrow> Inl e
           | Inr t2 \<Rightarrow>
               Inr ((case ud_closedAt d of None \<Rightarrow> t2 | Some c \<Rightarrow> t2\<lparr>t_closedAt := c\<rparr>)
                      \<lparr>t_updatedAt := ud_updatedAt d\<rparr>)))"

text \<open>\<open>supportTicket.update\<close> with a data object: validated first, then written.\<close>

definition supportTicket_updateWith ::
  "string \<Rightarrow> updateData \<Rightarrow> sys \<Rightarrow> (error + ticket) \<times> sys" where
  "supportTicket_updateWith i d s =
     (case supportTicket_findUnique i s of
        None \<Rightarrow> (Inl (PrismaNotFound notFoundMsg), s)
      | Some t \<Rightarrow>
          (case applyUpdateData d t of
             Inl e \<Rightarrow> (Inl e, s)
           | Inr t' \<Rightarrow>
               (Inr t',
                s\<lparr>tickets :=
                    rowUpdate t_id i
                      (\<lambda>r. case applyUpdateData d r of Inl e \<Rightarrow> r | Inr r' \<Rightarrow> r')
                      (tickets s)\<rparr>)))"

record ticketStatusResult =
  ts_id :: string
  ts_status :: TicketStatus
  ts_priority :: Priority
  ts_updatedAt :: timestamp
  ts_closedAt :: "timestamp option"

definition optStr :: "string option \<Rightarrow> string" where
  "optStr x = (case x of None \<Rightarrow> ''undefined'' | Some v \<Rightarrow> v)"

definition Admin_updateTicketStatus_try ::
  "string \<Rightarrow> string \<Rightarrow> string \<Rightarrow> string option \<Rightarrow> string option \<Rightarrow> string option
     \<Rightarrow> string \<Rightarrow> timestamp \<Rightarrow> sys \<Rightarrow> (error + ticketStatusResult) \<times> sys" where
  "Admin_updateTicketStatus_try ticketId status adminUserId priority reason internalNotes
       newId now s =
     (case supportTicket_findUnique ticketId s of
        None \<Rightarrow> (Inl (NotFoundException ''Support ticket not found''), s)
      | Some ticket \<Rightarrow>
          (let oldStatus = t_status ticket;
               oldPriority = t_priority ticket;
               d0 = \<lparr>ud_updatedAt = now, ud_status = None, ud_closedAt = None,
                      ud_priority = None\<rparr>;
               d1 = (if status \<noteq> [] then
                       (if status = ''CLOSED''
                        then d0\<lparr>ud_status := Some status, ud_closedAt := Some (Some now)\<rparr>
                        else if status = ''OPEN'' \<and> t_closedAt ticket \<noteq> None
                        then d0\<lparr>ud_status := Some status, ud_closedAt := Some None\<rparr>
                        else d0\<lparr>ud_status := Some status\<rparr>)
                     else d0);
               d2 = (if truthyStr priority then d1\<lparr>ud_priority := priority\<rparr> else d1)
           in case supportTicket_updateWith ticketId d2 s of
                (Inl e, s1) \<Rightarrow> (Inl e, s1)
              | (Inr updatedTicket, s1) \<Rightarrow>
                  (case (case internalNotes of
                           None \<Rightarrow> (Inr (), s1)
                         | Some n \<Rightarrow>
                             if n = [] then (Inr (), s1)
                             else (case addInternalNote ticketId n adminUserId ''GENERAL''
                                          newId now s1 of
                                     (Inl e, s2) \<Rightarrow> (Inl e, s2)
                                   | (Inr _, s2) \<Rightarrow> (Inr (), s2))) of
                     (Inl e, s2) \<Rightarrow> (Inl e, s2)
                   | (Inr _, s2) \<Rightarrow>
                       (case logAdminAction adminUserId ''TICKET_STATUS_UPDATE'' ticketId
                               [statusStr oldStatus, status, priorityStr oldPriority,
                                optStr priority, optStr reason] s2 of
                          (Inl e, s3) \<Rightarrow> (Inl e, s3)
                        | (Inr _, s3) \<Rightarrow>
                            (Inr \<lparr>ts_id = t_id updatedTicket,
                                  ts_status = t_status updatedTicket,
                                  ts_priority = t_priority updatedTicket,
                                  ts_updatedAt = t_updatedAt updatedTicket,
                                  ts_closedAt = t_closedAt updatedTicket\<rparr>,
                             logger LLog
                               (''Ticket '' @ ticketId @ '' status updated by admin ''
                                  @ adminUserId) [] s3)))))"

definition Admin_updateTicketStatus ::
  "string \<Rightarrow> string \<Rightarrow> string \<Rightarrow> string option \<Rightarrow> string option \<Rightarrow> string option
     \<Rightarrow> string \<Rightarrow> timestamp \<Rightarrow> sys \<Rightarrow> (error + ticketStatusResult) \<times> sys" where
  "Admin_updateTicketStatus ticketId status adminUserId priority reason internalNotes
       newId now s =
     catchLog (\<lambda>e. False) (''Failed to update ticket '' @ ticketId @ '' status:'')
       (Admin_updateTicketStatus_try ticketId status adminUserId priority reason
          internalNotes newId now s)"

subsection \<open>The controller's updateTicketStatus handler\<close>

text \<open>
  The request body as the handler declares it, the authenticated user, and the response
  envelope. The handler catches every exception and answers with an error envelope.
\<close>

record statusBody =
  b_status :: "TicketStatus option"
  b_priority :: "Priority option"
  b_reason :: "string option"
  b_internalNotes :: "string option"

record adminUser =
  au_id :: string
  au_roles :: "string list"

record apiResponse =
  res_success :: bool
  res_message :: string
  res_data :: "ticketStatusResult option"
  res_error :: "string option"
  res_code :: "string option"

definition createSuccessResponse :: "string \<Rightarrow> ticketStatusResult \<Rightarrow> apiResponse" where
  "createSuccessResponse message d =
     \<lparr>res_success = True, res_message = message, res_data = Some d, res_error = None,
      res_code = None\<rparr>"

definition createErrorResponse :: "string \<Rightarrow> string \<Rightarrow> string \<Rightarrow> apiResponse" where
  "createErrorResponse message code err =
     \<lparr>res_success = False, res_message = message, res_data = None, res_error = Some err,
      res_code = Some code\<rparr>"

definition AdminController_updateTicketStatus ::
  "string \<Rightarrow> statusBody \<Rightarrow> adminUser \<Rightarrow> string \<Rightarrow> timestamp \<Rightarrow> sys \<Rightarrow> apiResponse \<times> sys" where
  "AdminController_updateTicketStatus ticketId body user newId now s =
     (case (case requireStaff (au_roles user) of
              Inl e \<Rightarrow> (Inl e, s)
            | Inr _ \<Rightarrow>
                Admin_updateTicketStatus ticketId
                  (case b_status body of None \<Rightarrow> ''OPEN'' | Some st \<Rightarrow> statusStr st)
                  (au_id user) (map_option priorityStr (b_priority body)) (b_reason body)
                  (b_internalNotes body) newId now s) of
        (Inr result, s1) \<Rightarrow>
          (createSuccessResponse ''Ticket status updated successfully'' result, s1)
      | (Inl e, s1) \<Rightarrow>
          (createErrorResponse
             (if errMessage e = [] then ''Failed to update ticket status'' else errMessage e)
             ''TICKET_STATUS_UPDATE_FAILED'' (errName e),
           logger LError ''Ticket status update failed:'' [errMessage e] s1))"

subsection \<open>The admin service's processReopenRequest and deleteTicket\<close>

text \<open>
  The admin service's own \<open>processReopenRequest\<close> checks neither the caller's roles nor
  the request's status. It returns fields of the updated request.
\<close>

definition Admin_processReopenRequest ::
  "string \<Rightarrow> bool \<Rightarrow> string \<Rightarrow> string option \<Rightarrow> timestamp \<Rightarrow> sys
     \<Rightarrow> (error + reopenRequest) \<times> sys" where
  "Admin_processReopenRequest requestId approve adminUserId reason now s =
     catchLog (\<lambda>e. False) (''Failed to process reopen request '' @ requestId @ '':'')
       (case ticketReopenRequest_findUnique requestId s of
          None \<Rightarrow> (Inl (NotFoundException ''Reopen request not found''), s)
        | Some request \<Rightarrow>
            (let newStatus = (if approve then APPROVED else REJECTED)
             in case ticketReopenRequest_update requestId
                       (\<lambda>r. r\<lparr>rr_status := newStatus, rr_reviewedById := Some adminUserId,
                               rr_reviewedAt := Some now\<rparr>) now s of
                  (Inl e, s1) \<Rightarrow> (Inl e, s1)
                | (Inr updatedRequest, s1) \<Rightarrow>
                    (case (if approve
                           then (case supportTicket_update (rr_ticketId request)
                                        (\<lambda>t. t\<lparr>t_status := OPEN, t_closedAt := None\<rparr>)
                                        now s1 of
                                   (Inl e, s2) \<Rightarrow> (Inl e, s2)
                                 | (Inr _, s2) \<Rightarrow> (Inr (), s2))
                           else (Inr (), s1)) of
                       (Inl e, s2) \<Rightarrow> (Inl e, s2)
                     | (Inr _, s2) \<Rightarrow>
                         (case logAdminAction adminUserId ''REOPEN_REQUEST_PROCESS'' requestId
                                 [rr_ticketId request, if approve then ''true'' else ''false'',
                                  optStr reason] s2 of
                            (Inl e, s3) \<Rightarrow> (Inl e, s3)
                          | (Inr _, s3) \<Rightarrow>
                              (Inr updatedRequest,
                               logger LLog
                                 (''Reopen request '' @ requestId @ '' ''
                                    @ (if approve then ''approved'' else ''rejected'')
                                    @ '' by admin '' @ adminUserId) [] s3)))))"

text \<open>\<open>deleteTicket\<close>: the "soft delete by updating status" of the source.\<close>

definition Admin_deleteTicket ::
  "string \<Rightarrow> string \<Rightarrow> string \<Rightarrow> timestamp \<Rightarrow> sys \<Rightarrow> (error + unit) \<times> sys" where
  "Admin_deleteTicket ticketId adminUserId reason now s =
     catchLog (\<lambda>e. False) (''Failed to delete support ticket '' @ ticketId @ '':'')
       (case supportTicket_findUnique ticketId s of
          None \<Rightarrow> (Inl (NotFoundException ''Support ticket not found''), s)
        | Some ticket \<Rightarrow>
            (case supportTicket_update ticketId
                    (\<lambda>t. t\<lparr>t_status := CLOSED, t_closedAt := Some now\<rparr>) now s of
               (Inl e, s1) \<Rightarrow> (Inl e, s1)
             | (Inr _, s1) \<Rightarrow>
                 (case logAdminAction adminUserId ''TICKET_DELETED'' ticketId [reason] s1 of
                    (Inl e, s2) \<Rightarrow> (Inl e, s2)
                  | (Inr _, s2) \<Rightarrow>
                      (Inr (),
                       logger LLog
                         (''Support ticket '' @ ticketId @ '' deleted by admin ''
                            @ adminUserId) [] s2))))"

section \<open>AdminUserService.deleteUser\<close>

text \<open>
  \<open>UsersService.findById\<close> is not among the sources; it is a parameter of the model: a
  lookup that returns a user or null. The update's data object holds \<open>updatedAt\<close> only.
  The \<open>catch\<close> rethrows a NotFoundException and turns every other exception into a
  BadRequestException after logging it.
\<close>

definition deleteUser_try ::
  "(string \<Rightarrow> sys \<Rightarrow> user option) \<Rightarrow> string \<Rightarrow> string \<Rightarrow> timestamp \<Rightarrow> sys
     \<Rightarrow> (error + unit) \<times> sys" where
  "deleteUser_try findById ident adminId now s =
     (case findById ident s of
        None \<Rightarrow> (Inl (NotFoundException ''User not found''), s)
      | Some currentUser \<Rightarrow>
          (case findById adminId s of
             None \<Rightarrow> (Inl (NotFoundException ''Admin user not found''), s)
           | Some adminUser \<Rightarrow>
               (case user_update ident (\<lambda>u. u\<lparr>u_updatedAt := now\<rparr>) now s of
                  (Inl e, s1) \<Rightarrow> (Inl e, s1)
                | (Inr _, s1) \<Rightarrow>
                    (Inr (),
                     logger LLog (''User '' @ ident @ '' deleted by admin '' @ adminId) []
                       s1))))"

definition deleteUser ::
  "(string \<Rightarrow> sys \<Rightarrow> user option) \<Rightarrow> string \<Rightarrow> string \<Rightarrow> timestamp \<Rightarrow> sys
     \<Rightarrow> (error + unit) \<times> sys" where
  "deleteUser findById ident adminId now s =
     (case deleteUser_try findById ident adminId now s of
        (Inl e, s1) \<Rightarrow>
          if isNotFound e then (Inl e, s1)
          else (Inl (BadRequestException ''Failed to delete user''),
                logger LError (''Failed to delete user '' @ ident @ '':'') [errMessage e] s1)
      | (Inr v, s1) \<Rightarrow> (Inr v, s1))"

section \<open>ContactMessagesService.deleteContactMessage\<close>

record deletedMessage =
  dm_id :: string
  dm_deletedAt :: timestamp

definition deleteContactMessage ::
  "string \<Rightarrow> timestamp \<Rightarrow> sys \<Rightarrow> (error + deletedMessage) \<times> sys" where
  "deleteContactMessage ident now s =
     catchLog (\<lambda>e. False) (''Failed to delete contact message '' @ ident)
       (case contactMessage_findUnique ident s of
          None \<Rightarrow> (Inl (BadRequestException ''Contact message not found''), s)
        | Some message \<Rightarrow>
            (case contactMessage_delete ident s of
               (Inl e, s1) \<Rightarrow> (Inl e, s1)
             | (Inr _, s1) \<Rightarrow>
                 (Inr \<lparr>dm_id = ident, dm_deletedAt = now\<rparr>,
                  logger LInfo (''Contact message deleted: '' @ ident) [] s1)))"

section \<open>AdminAuditLogService.getAuditLogs\<close>

text \<open>
  The method ignores its query (of type \<open>any\<close>) and the database and returns a literal.
\<close>

record auditSummary =
  as_totalLogs :: int
  as_todayLogs :: int
  as_securityEvents :: int
  as_errorLogs :: int

record auditLogs =
  al_logs :: "string list"
  al_total :: int
  al_hasMore :: bool
  al_summary :: auditSummary

definition getAuditLogs :: "'q \<Rightarrow> sys \<Rightarrow> auditLogs \<times> sys" where
  "getAuditLogs query s =
     (\<lparr>al_logs = [], al_total = 0, al_hasMore = False,
       al_summary = \<lparr>as_totalLogs = 0, as_todayLogs = 0, as_securityEvents = 0,
                     as_errorLogs = 0\<rparr>\<rparr>, s)"

section \<open>AdminUserGrowthService.getUserGrowthData\<close>
















section \<open>A small database for the worked examples\<close>

text \<open>
  Two customers, one administrator; a closed ticket of the first customer, an open ticket
  of the second; one pending and one rejected reopen request for the closed ticket; one
  contact message.
\<close>

definition demoUser :: "string \<Rightarrow> string list \<Rightarrow> timestamp \<Rightarrow> user" where
  "demoUser i rs c =
     \<lparr>u_id = i, u_email = i @ ''@example.com'', u_name = i, u_roles = rs, u_status = ACTIVE,
      u_suspensionReason = None, u_suspendedAt = None, u_metadata = None,
      u_createdAt = c, u_updatedAt = c\<rparr>"

definition demoTicket1 :: ticket where
  "demoTicket1 =
     \<lparr>t_id = ''t1'', t_title = ''Login fails'', t_description = None, t_status = CLOSED,
      t_priority = NORMAL, t_createdById = Some ''u1'', t_assignedToId = Some ''a1'',
      t_closedAt = Some 50, t_fileUrls = [], t_createdAt = 10, t_updatedAt = 50\<rparr>"

definition demoTicket2 :: ticket where
  "demoTicket2 =
     \<lparr>t_id = ''t2'', t_title = ''Invoice'', t_description = Some ''Wrong total'',
      t_status = OPEN, t_priority = HIGH, t_createdById = Some ''u2'', t_assignedToId = None,
      t_closedAt = None, t_fileUrls = [], t_createdAt = 20, t_updatedAt = 20\<rparr>"

definition demoRequest :: "string \<Rightarrow> ReopenStatus \<Rightarrow> reopenRequest" where
  "demoRequest i st =
     \<lparr>rr_id = i, rr_ticketId = ''t1'', rr_requestedById = Some ''u1'',
      rr_reason = ''Still broken'', rr_status = st, rr_reviewedById = None,
      rr_reviewedAt = None, rr_createdAt = 60, rr_updatedAt = 60\<rparr>"

definition demoMessage :: contactMessage where
  "demoMessage =
     \<lparr>cm_id = ''m1'', cm_name = ''Ann'', cm_email = ''ann@example.com'', cm_subject = ''Hi'',
      cm_message = ''Hello'', cm_createdAt = 5, cm_updatedAt = 5\<rparr>"

definition demoSys :: sys where
  "demoSys =
     \<lparr>users = [demoUser ''u1'' [''user''] 1, demoUser ''u2'' [''user''] 2,
               demoUser ''a1'' [''admin''] 3],
      tickets = [demoTicket1, demoTicket2],
      replies = [],
      reopenRequests = [demoRequest ''r0'' REJECTED, demoRequest ''r1'' PENDING],
      contactMessages = [demoMessage],
      plog = []\<rparr>"

text \<open>The same database before any reopen request was made.\<close>

definition demoSys0 :: sys where
  "demoSys0 = demoSys\<lparr>reopenRequests := []\<rparr>"

definition emptyQuery :: TicketQueryDto where
  "emptyQuery =
     \<lparr>q_status = None, q_priority = None, q_search = None, q_assigneeId = None,
      q_creatorId = None, q_page = None, q_limit = None, q_sortBy = None,
      q_sortOrder = None\<rparr>"

section \<open>Properties of PermissionUtils\<close>

lemma arr_includes_set: "arr_includes roles r \<longleftrightarrow> r \<in> set roles"
  by (simp add: arr_includes_def)

lemma isStaff_set:
  "isStaff roles \<longleftrightarrow>
     ''admin'' \<in> set roles \<or> ''staff'' \<in> set roles \<or> ''support'' \<in> set roles
       \<or> ''developer'' \<in> set roles"
  unfolding isStaff_def list_ex_iff ADMIN_def STAFF_def SUPPORT_AGENT_def DEVELOPER_def
  by blast

text \<open>
  Claim C8. \<open>isStaff\<close> is true exactly when the role list contains at least one of
  'admin', 'staff', 'support', 'developer', and \<open>requireStaff\<close> throws a
  ForbiddenException exactly when \<open>isStaff\<close> is false.
\<close>

theorem C8_isStaff_requireStaff:
  "(isStaff roles \<longleftrightarrow>
      ''admin'' \<in> set roles \<or> ''staff'' \<in> set roles \<or> ''support'' \<in> set roles
        \<or> ''developer'' \<in> set roles)
   \<and> ((\<exists>m. requireStaff roles = Inl (ForbiddenException m)) \<longleftrightarrow> \<not> isStaff roles)
   \<and> (requireStaff roles = Inr () \<longleftrightarrow> isStaff roles)"
  by (simp add: isStaff_set requireStaff_def)

text \<open>
  Claim C10. \<open>getPermissionLevel\<close> never returns 3: \<open>isDeveloper\<close> is true for every
  list that contains 'admin', so such a list gets level 4 and the branch that returns 3
  is never taken.
\<close>

theorem C10_level_three_unreachable:
  "getPermissionLevel roles \<noteq> 3
   \<and> (''admin'' \<in> set roles \<longrightarrow> isDeveloper roles \<and> getPermissionLevel roles = 4)"
  by (simp add: getPermissionLevel_def isDeveloper_def isAdmin_def arr_includes_set ADMIN_def)

theorem C10_level_three_unreachable_witness:
  "''admin'' \<in> set [''user'', ''admin''] \<and> isDeveloper [''user'', ''admin'']
   \<and> getPermissionLevel [''user'', ''admin''] = 4
   \<and> getPermissionLevel [''user'', ''admin''] \<noteq> 3"
  using C10_level_three_unreachable [of "[''user'', ''admin'']"] by simp

section \<open>Lemmas about the ORM's calls and the catch blocks\<close>

lemmas demo_defs = demoSys_def demoSys0_def demoUser_def demoTicket1_def demoTicket2_def
  demoRequest_def demoMessage_def emptyQuery_def

lemmas orm_defs = rowFind_def rowUpdate_def rowDelete_def user_findUnique_def
  supportTicket_findUnique_def ticketReopenRequest_findUnique_def
  ticketReopenRequest_findFirst_def contactMessage_findUnique_def

lemma catchLog_Inr [simp]: "catchLog silent msg (Inr v, s) = (Inr v, s)"
  by (simp add: catchLog_def)

lemma catchLog_fst: "fst (catchLog silent msg r) = fst r"
  by (cases r) (auto simp: catchLog_def split: sum.splits)

lemma rowFind_rowUpdate_same:
  "(\<And>r. key (f r) = key r) \<Longrightarrow>
     rowFind key i (rowUpdate key i f rows) = map_option f (rowFind key i rows)"
  by (induction rows) (auto simp: rowFind_def rowUpdate_def)

lemma rowFind_Some_key: "rowFind key i rows = Some r \<Longrightarrow> key r = i \<and> r \<in> set rows"
  by (induction rows) (auto simp: rowFind_def split: if_splits)

lemma demo_r1: "ticketReopenRequest_findUnique ''r1'' demoSys = Some (demoRequest ''r1'' PENDING)"
  by (simp add: demo_defs orm_defs)

lemma demo_r0: "ticketReopenRequest_findUnique ''r0'' demoSys = Some (demoRequest ''r0'' REJECTED)"
  by (simp add: demo_defs orm_defs)

lemma demo_t1: "supportTicket_findUnique ''t1'' demoSys = Some demoTicket1"
  by (simp add: demo_defs orm_defs)

lemma demo_t2: "supportTicket_findUnique ''t2'' demoSys = Some demoTicket2"
  by (simp add: demo_defs orm_defs)

section \<open>The reopen-request workflow\<close>

subsection \<open>processReopenRequest, case by case\<close>

lemma processReopenRequest_approve:
  assumes "isStaff userRoles"
      and "ticketReopenRequest_findUnique requestId s = Some r"
      and "rr_status r = PENDING"
      and "supportTicket_findUnique (rr_ticketId r) s = Some t"
  shows "processReopenRequest requestId True userId userRoles now s =
     (Inr (r\<lparr>rr_status := APPROVED, rr_reviewedById := Some userId, rr_reviewedAt := Some now,
             rr_updatedAt := now\<rparr>),
      logger LInfo (''Ticket '' @ rr_ticketId r @ '' reopened via request '' @ requestId) []
        (s\<lparr>reopenRequests :=
             rowUpdate rr_id requestId
               (\<lambda>x. x\<lparr>rr_status := APPROVED, rr_reviewedById := Some userId,
                       rr_reviewedAt := Some now, rr_updatedAt := now\<rparr>) (reopenRequests s),
           tickets :=
             rowUpdate t_id (rr_ticketId r)
               (\<lambda>x. x\<lparr>t_status := OPEN, t_closedAt := None, t_updatedAt := now\<rparr>) (tickets s)\<rparr>))"
  using assms
  by (simp add: processReopenRequest_def processReopenRequest_try_def requireStaff_def
       ticketReopenRequest_update_def supportTicket_update_def supportTicket_findUnique_def
       ticketReopenRequest_findUnique_def logger_def)

lemma processReopenRequest_reject:
  assumes "isStaff userRoles"
      and "ticketReopenRequest_findUnique requestId s = Some r"
      and "rr_status r = PENDING"
  shows "processReopenRequest requestId False userId userRoles now s =
     (Inr (r\<lparr>rr_status := REJECTED, rr_reviewedById := Some userId, rr_reviewedAt := Some now,
             rr_updatedAt := now\<rparr>),
      logger LInfo (''Reopen request '' @ requestId @ '' rejected'') []
        (s\<lparr>reopenRequests :=
             rowUpdate rr_id requestId
               (\<lambda>x. x\<lparr>rr_status := REJECTED, rr_reviewedById := Some userId,
                       rr_reviewedAt := Some now, rr_updatedAt := now\<rparr>) (reopenRequests s)\<rparr>))"
  using assms
  by (simp add: processReopenRequest_def processReopenRequest_try_def requireStaff_def
       ticketReopenRequest_update_def ticketReopenRequest_findUnique_def logger_def)

lemma processReopenRequest_not_pending:
  assumes "isStaff userRoles"
      and "ticketReopenRequest_findUnique requestId s = Some r"
      and "rr_status r \<noteq> PENDING"
  shows "processReopenRequest requestId approve userId userRoles now s =
     (Inl (BadRequestException ''This reopen request has already been processed''), s)"
  using assms
  by (simp add: processReopenRequest_def processReopenRequest_try_def requireStaff_def
       catchLog_def)

lemma processReopenRequest_not_staff:
  assumes "\<not> isStaff userRoles"
  shows "processReopenRequest requestId approve userId userRoles now s =
     (Inl (ForbiddenException ''Access denied. Staff role required.''), s)"
  using assms
  by (simp add: processReopenRequest_def processReopenRequest_try_def requireStaff_def
       catchLog_def)

text \<open>
  Claim C1, as stated, says that every pending request is approved or rejected by
  \<open>processReopenRequest\<close> and that every other request is refused with a
  BadRequestException. The method first requires a staff role: for a caller without one
  it throws a ForbiddenException, whatever the request's status, and changes nothing. Here
  a customer calls it on the pending request r1 and on the rejected request r0.
\<close>

theorem C1_non_staff_counterexample:
  "processReopenRequest ''r1'' True ''u2'' [''user''] 100 demoSys
     = (Inl (ForbiddenException ''Access denied. Staff role required.''), demoSys)
   \<and> ticketReopenRequest_findUnique ''r1'' demoSys = Some (demoRequest ''r1'' PENDING)
   \<and> rr_status (demoRequest ''r1'' PENDING) = PENDING
   \<and> processReopenRequest ''r0'' True ''u2'' [''user''] 100 demoSys
     = (Inl (ForbiddenException ''Access denied. Staff role required.''), demoSys)
   \<and> ticketReopenRequest_findUnique ''r0'' demoSys = Some (demoRequest ''r0'' REJECTED)"
  by (simp add: processReopenRequest_not_staff isStaff_set demo_r1 demo_r0)
     (simp add: demoRequest_def)

text \<open>
  Claim C1, amended. For a caller with a staff role and an existing reopen request:
  if the request is PENDING and its ticket exists, approving it returns normally, leaves
  the request APPROVED with \<open>reviewedById\<close> and \<open>reviewedAt\<close> recorded, and leaves the
  ticket OPEN with \<open>closedAt\<close> null; if the request is PENDING, rejecting it leaves it
  REJECTED with the reviewer recorded and the ticket table as it was; if the request is not
  PENDING the call throws a BadRequestException and the state is unchanged. For a caller
  without a staff role the call throws a ForbiddenException and the state is unchanged.
\<close>

theorem C1_processReopenRequest_by_staff:
  assumes "ticketReopenRequest_findUnique requestId s = Some r"
  shows
    "(isStaff userRoles \<and> rr_status r = PENDING
        \<and> supportTicket_findUnique (rr_ticketId r) s \<noteq> None \<longrightarrow>
        (\<exists>r' s'. processReopenRequest requestId True userId userRoles now s = (Inr r', s')
           \<and> (\<exists>q. ticketReopenRequest_findUnique requestId s' = Some q
                 \<and> rr_status q = APPROVED \<and> rr_reviewedById q = Some userId
                 \<and> rr_reviewedAt q = Some now)
           \<and> (\<exists>t'. supportTicket_findUnique (rr_ticketId r) s' = Some t'
                 \<and> t_status t' = OPEN \<and> t_closedAt t' = None)))
     \<and> (isStaff userRoles \<and> rr_status r = PENDING \<longrightarrow>
        (\<exists>r' s'. processReopenRequest requestId False userId userRoles now s = (Inr r', s')
           \<and> (\<exists>q. ticketReopenRequest_findUnique requestId s' = Some q
                 \<and> rr_status q = REJECTED \<and> rr_reviewedById q = Some userId
                 \<and> rr_reviewedAt q = Some now)
           \<and> tickets s' = tickets s))
     \<and> (isStaff userRoles \<and> rr_status r \<noteq> PENDING \<longrightarrow>
        (\<exists>m. processReopenRequest requestId approve userId userRoles now s
               = (Inl (BadRequestException m), s)))
     \<and> (\<not> isStaff userRoles \<longrightarrow>
        (\<exists>m. processReopenRequest requestId approve userId userRoles now s
               = (Inl (ForbiddenException m), s)))"
proof (intro conjI impI)
  assume h: "isStaff userRoles \<and> rr_status r = PENDING
        \<and> supportTicket_findUnique (rr_ticketId r) s \<noteq> None"
  then obtain t where t: "supportTicket_findUnique (rr_ticketId r) s = Some t" by auto
  note eq = processReopenRequest_approve [OF _ assms _ t, of userRoles userId now]
  show "\<exists>r' s'. processReopenRequest requestId True userId userRoles now s = (Inr r', s')
           \<and> (\<exists>q. ticketReopenRequest_findUnique requestId s' = Some q
                 \<and> rr_status q = APPROVED \<and> rr_reviewedById q = Some userId
                 \<and> rr_reviewedAt q = Some now)
           \<and> (\<exists>t'. supportTicket_findUnique (rr_ticketId r) s' = Some t'
                 \<and> t_status t' = OPEN \<and> t_closedAt t' = None)"
    using h assms t
    by (simp add: eq logger_def ticketReopenRequest_findUnique_def
          supportTicket_findUnique_def rowFind_rowUpdate_same)
next
  assume h: "isStaff userRoles \<and> rr_status r = PENDING"
  note eq = processReopenRequest_reject [OF _ assms, of userRoles userId now]
  show "\<exists>r' s'. processReopenRequest requestId False userId userRoles now s = (Inr r', s')
           \<and> (\<exists>q. ticketReopenRequest_findUnique requestId s' = Some q
                 \<and> rr_status q = REJECTED \<and> rr_reviewedById q = Some userId
                 \<and> rr_reviewedAt q = Some now)
           \<and> tickets s' = tickets s"
    using h assms
    by (simp add: eq logger_def ticketReopenRequest_findUnique_def rowFind_rowUpdate_same)
next
  assume "isStaff userRoles \<and> rr_status r \<noteq> PENDING"
  then show "\<exists>m. processReopenRequest requestId approve userId userRoles now s
               = (Inl (BadRequestException m), s)"
    using processReopenRequest_not_pending [OF _ assms] by simp
next
  assume "\<not> isStaff userRoles"
  then show "\<exists>m. processReopenRequest requestId approve userId userRoles now s
               = (Inl (ForbiddenException m), s)"
    using processReopenRequest_not_staff by simp
qed

theorem C1_processReopenRequest_by_staff_witness:
  "(\<exists>r' s'. processReopenRequest ''r1'' True ''a1'' [''admin''] 100 demoSys = (Inr r', s')
      \<and> (\<exists>q. ticketReopenRequest_findUnique ''r1'' s' = Some q
            \<and> rr_status q = APPROVED \<and> rr_reviewedById q = Some ''a1''
            \<and> rr_reviewedAt q = Some 100)
      \<and> (\<exists>t'. supportTicket_findUnique ''t1'' s' = Some t'
            \<and> t_status t' = OPEN \<and> t_closedAt t' = None))
   \<and> (\<exists>r' s'. processReopenRequest ''r1'' False ''a1'' [''admin''] 100 demoSys = (Inr r', s')
      \<and> (\<exists>q. ticketReopenRequest_findUnique ''r1'' s' = Some q
            \<and> rr_status q = REJECTED \<and> rr_reviewedById q = Some ''a1''
            \<and> rr_reviewedAt q = Some 100)
      \<and> tickets s' = tickets demoSys)
   \<and> (\<exists>m. processReopenRequest ''r0'' True ''a1'' [''admin''] 100 demoSys
          = (Inl (BadRequestException m), demoSys))
   \<and> (\<exists>m. processReopenRequest ''r1'' True ''u2'' [''user''] 100 demoSys
          = (Inl (ForbiddenException m), demoSys))"
proof -
  have staff: "isStaff [''admin'']" and nostaff: "\<not> isStaff [''user'']"
    by (simp_all add: isStaff_set)
  have t1: "supportTicket_findUnique ''t1'' demoSys \<noteq> None"
    by (simp add: demo_t1)
  have p: "rr_status (demoRequest ''r1'' PENDING) = PENDING"
       "rr_ticketId (demoRequest ''r1'' PENDING) = ''t1''"
       "rr_status (demoRequest ''r0'' REJECTED) \<noteq> PENDING"
    by (simp_all add: demoRequest_def)
  show ?thesis
    using C1_processReopenRequest_by_staff [OF demo_r1, of "[''admin'']" "''a1''" 100 True]
          C1_processReopenRequest_by_staff [OF demo_r0, of "[''admin'']" "''a1''" 100 True]
          C1_processReopenRequest_by_staff [OF demo_r1, of "[''user'']" "''u2''" 100 True]
          staff nostaff t1 p
    by simp
qed

section \<open>Ticket visibility and creation of reopen requests\<close>

lemma findMany_subset:
  "supportTicket_findMany w sortBy ord sk tk orderKey s = Inr rows \<Longrightarrow>
     set rows \<subseteq> {t \<in> set (tickets s). whereMatches w t}"
  unfolding supportTicket_findMany_def
  by (auto simp: Let_def split: option.splits if_splits sortOrder.splits
           dest!: in_set_takeD in_set_dropD)

lemma getTicketById_eq:
  "getTicketById ticketId userId userRoles s =
     (case supportTicket_findUnique ticketId s of
        None \<Rightarrow> (Inl (NotFoundException ''Ticket not found''), s)
      | Some ticket \<Rightarrow>
          if \<not> isStaff userRoles \<and> t_createdById ticket \<noteq> Some userId
          then (Inl (ForbiddenException ''You can only view your own tickets''), s)
          else (Inr ticket, s))"
  by (simp add: getTicketById_def getTicketById_try_def catchLog_def split: option.splits)

lemma getTickets_try_where:
  assumes "\<not> isStaff userRoles"
      and "getTickets_try userId query userRoles orderKey s = (Inr page, s')"
  shows "\<forall>t \<in> set (tp_tickets page). t_createdById t = Some userId \<and> t \<in> set (tickets s)"
  using assms
  unfolding getTickets_try_def
  by (cases "q_priority query")
     (auto simp: Let_def emptyWhere_def whereMatches_def
           split: if_splits sum.splits dest!: findMany_subset)

text \<open>
  Claim C3. For a user whose roles contain none of 'admin', 'staff', 'support',
  'developer': every ticket that \<open>getTickets\<close> returns has that user's id as
  \<open>createdById\<close>, whatever the query and the ordering of the database; and
  \<open>getTicketById\<close> throws a ForbiddenException exactly when the ticket exists and its
  \<open>createdById\<close> is not the user's id.
\<close>

theorem C3_non_staff_own_tickets:
  assumes "''admin'' \<notin> set userRoles" and "''staff'' \<notin> set userRoles"
      and "''support'' \<notin> set userRoles" and "''developer'' \<notin> set userRoles"
  shows "(\<forall>page s'. getTickets userId query userRoles orderKey s = (Inr page, s') \<longrightarrow>
            (\<forall>t \<in> set (tp_tickets page). t_createdById t = Some userId))
       \<and> ((\<exists>m s'. getTicketById ticketId userId userRoles s = (Inl (ForbiddenException m), s'))
            \<longleftrightarrow> (\<exists>t. supportTicket_findUnique ticketId s = Some t
                      \<and> t_createdById t \<noteq> Some userId))"
proof -
  have ns: "\<not> isStaff userRoles" using assms by (simp add: isStaff_set)
  have a: "\<forall>t \<in> set (tp_tickets page). t_createdById t = Some userId"
    if "getTickets userId query userRoles orderKey s = (Inr page, s')" for page s'
  proof -
    obtain r s1 where r: "getTickets_try userId query userRoles orderKey s = (r, s1)"
      by (cases "getTickets_try userId query userRoles orderKey s")
    with that have "r = Inr page"
      by (cases r) (auto simp: getTickets_def catchLog_def)
    with r getTickets_try_where [OF ns] show ?thesis by blast
  qed
  have b: "(\<exists>m s'. getTicketById ticketId userId userRoles s = (Inl (ForbiddenException m), s'))
            \<longleftrightarrow> (\<exists>t. supportTicket_findUnique ticketId s = Some t
                      \<and> t_createdById t \<noteq> Some userId)"
    using ns by (auto simp: getTicketById_eq split: option.splits)
  from a b show ?thesis by blast
qed

lemma demo_getTickets_u1:
  "getTickets ''u1'' emptyQuery [''user''] documentedOrderKey demoSys
     = (Inr \<lparr>tp_tickets = [demoTicket1], tp_page = 1, tp_limit = 10, tp_total = 1,
             tp_totalPages = Some 1\<rparr>, demoSys)"
  by (simp add: getTickets_def getTickets_try_def isStaff_set emptyQuery_def Let_def
        emptyWhere_def truthyStr_def supportTicket_count_def supportTicket_findMany_def
        documentedOrderKey_def whereMatches_def ceilDiv_def
        demoSys_def demoTicket1_def demoTicket2_def)

theorem C3_non_staff_own_tickets_witness:
  "getTickets ''u1'' emptyQuery [''user''] documentedOrderKey demoSys
     = (Inr \<lparr>tp_tickets = [demoTicket1], tp_page = 1, tp_limit = 10, tp_total = 1,
             tp_totalPages = Some 1\<rparr>, demoSys)
   \<and> t_createdById demoTicket1 = Some ''u1''
   \<and> supportTicket_findUnique ''t2'' demoSys = Some demoTicket2
   \<and> t_createdById demoTicket2 \<noteq> Some ''u1''
   \<and> (\<exists>m s'. getTicketById ''t2'' ''u1'' [''user''] demoSys = (Inl (ForbiddenException m), s'))"
proof -
  have t2: "t_createdById demoTicket2 \<noteq> Some ''u1''"
    by (simp add: demoTicket2_def)
  have r: "''admin'' \<notin> set [''user'']" "''staff'' \<notin> set [''user'']"
       "''support'' \<notin> set [''user'']" "''developer'' \<notin> set [''user'']"
    by simp_all
  from C3_non_staff_own_tickets [OF r, of "''u1''" emptyQuery documentedOrderKey demoSys "''t2''"]
       demo_getTickets_u1 demo_t2 t2
  show ?thesis by auto
qed

lemma findFirst_pending_None:
  "ticketReopenRequest_findFirst (\<lambda>r. rr_ticketId r = ticketId \<and> rr_status r = PENDING) s = None
     \<longleftrightarrow> \<not> (\<exists>r \<in> set (reopenRequests s). rr_ticketId r = ticketId \<and> rr_status r = PENDING)"
  by (auto simp: ticketReopenRequest_findFirst_def find_None_iff)

lemma createReopenRequest_eq:
  assumes "supportTicket_findUnique ticketId s = Some t"
  shows "createReopenRequest ticketId userId dto newId now s =
     (if t_createdById t \<noteq> Some userId
      then (Inl (ForbiddenException ''You can only view your own tickets''), s)
      else if t_status t \<noteq> CLOSED
      then (Inl (BadRequestException ''Only closed tickets can be reopened''), s)
      else if \<exists>r \<in> set (reopenRequests s). rr_ticketId r = ticketId \<and> rr_status r = PENDING
      then (Inl (BadRequestException ''A reopen request is already pending for this ticket''), s)
      else (Inr (fst (ticketReopenRequest_create newId ticketId userId (dto_reason dto) now s)),
            logger LInfo
              (''Reopen request created for ticket '' @ ticketId @ '' by user '' @ userId) []
              (snd (ticketReopenRequest_create newId ticketId userId (dto_reason dto) now s))))"
proof -
  have nostaff: "\<not> isStaff []" by (simp add: isStaff_def)
  show ?thesis
  proof (cases "ticketReopenRequest_findFirst
                  (\<lambda>r. rr_ticketId r = ticketId \<and> rr_status r = PENDING) s")
    case None
    then have "\<not> (\<exists>r \<in> set (reopenRequests s). rr_ticketId r = ticketId \<and> rr_status r = PENDING)"
      by (simp add: findFirst_pending_None)
    with None assms nostaff show ?thesis
      by (auto simp: createReopenRequest_def createReopenRequest_try_def getTicketById_eq
            catchLog_def split: prod.splits)
  next
    case (Some e)
    then have "\<exists>r \<in> set (reopenRequests s). rr_ticketId r = ticketId \<and> rr_status r = PENDING"
      using findFirst_pending_None [of ticketId s] by auto
    with Some assms nostaff show ?thesis
      by (auto simp: createReopenRequest_def createReopenRequest_try_def getTicketById_eq
            catchLog_def)
  qed
qed

text \<open>
  Claim C2. For a call to \<open>createReopenRequest\<close> on an existing ticket the checks
  run in the order of the claim: a caller who is not the ticket's creator gets a
  ForbiddenException; otherwise a ticket that is not CLOSED gives a BadRequestException;
  otherwise a PENDING reopen request for the ticket gives a BadRequestException; otherwise
  exactly one row is appended to the reopen requests, in status PENDING, for that ticket
  and caller, and the other tables are unchanged. A call that throws changes nothing.
\<close>

theorem C2_createReopenRequest:
  assumes "supportTicket_findUnique ticketId s = Some t"
  shows
    "(t_createdById t \<noteq> Some userId \<longrightarrow>
        (\<exists>m. createReopenRequest ticketId userId dto newId now s
               = (Inl (ForbiddenException m), s)))
     \<and> (t_createdById t = Some userId \<and> t_status t \<noteq> CLOSED \<longrightarrow>
        (\<exists>m. createReopenRequest ticketId userId dto newId now s
               = (Inl (BadRequestException m), s)))
     \<and> (t_createdById t = Some userId \<and> t_status t = CLOSED
          \<and> (\<exists>r \<in> set (reopenRequests s). rr_ticketId r = ticketId \<and> rr_status r = PENDING) \<longrightarrow>
        (\<exists>m. createReopenRequest ticketId userId dto newId now s
               = (Inl (BadRequestException m), s)))
     \<and> (t_createdById t = Some userId \<and> t_status t = CLOSED
          \<and> \<not> (\<exists>r \<in> set (reopenRequests s). rr_ticketId r = ticketId \<and> rr_status r = PENDING) \<longrightarrow>
        (\<exists>r' s'. createReopenRequest ticketId userId dto newId now s = (Inr r', s')
           \<and> reopenRequests s' = reopenRequests s @ [r']
           \<and> rr_status r' = PENDING \<and> rr_ticketId r' = ticketId
           \<and> rr_requestedById r' = Some userId \<and> rr_reason r' = dto_reason dto
           \<and> tickets s' = tickets s \<and> users s' = users s))"
  by (simp add: createReopenRequest_eq [OF assms] ticketReopenRequest_create_def logger_def
        Let_def)

lemma demo0_t1: "supportTicket_findUnique ''t1'' demoSys0 = Some demoTicket1"
  by (simp add: demo_defs orm_defs)

theorem C2_createReopenRequest_witness:
  "(\<exists>m. createReopenRequest ''t1'' ''u2'' \<lparr>dto_reason = ''Again''\<rparr> ''r9'' 100 demoSys
          = (Inl (ForbiddenException m), demoSys))
   \<and> (\<exists>m. createReopenRequest ''t2'' ''u2'' \<lparr>dto_reason = ''Again''\<rparr> ''r9'' 100 demoSys
          = (Inl (BadRequestException m), demoSys))
   \<and> (\<exists>m. createReopenRequest ''t1'' ''u1'' \<lparr>dto_reason = ''Again''\<rparr> ''r9'' 100 demoSys
          = (Inl (BadRequestException m), demoSys))
   \<and> (\<exists>r' s'. createReopenRequest ''t1'' ''u1'' \<lparr>dto_reason = ''Again''\<rparr> ''r9'' 100 demoSys0
          = (Inr r', s')
        \<and> reopenRequests s' = reopenRequests demoSys0 @ [r']
        \<and> rr_status r' = PENDING \<and> rr_ticketId r' = ''t1''
        \<and> rr_requestedById r' = Some ''u1'' \<and> rr_reason r' = ''Again''
        \<and> tickets s' = tickets demoSys0 \<and> users s' = users demoSys0)"
proof -
  have f: "t_createdById demoTicket1 = Some ''u1''" "t_status demoTicket1 = CLOSED"
          "t_createdById demoTicket2 = Some ''u2''" "t_status demoTicket2 \<noteq> CLOSED"
    by (simp_all add: demoTicket1_def demoTicket2_def)
  have p: "\<exists>r \<in> set (reopenRequests demoSys). rr_ticketId r = ''t1'' \<and> rr_status r = PENDING"
    by (simp add: demoSys_def demoRequest_def)
  have np: "\<not> (\<exists>r \<in> set (reopenRequests demoSys0). rr_ticketId r = ''t1'' \<and> rr_status r = PENDING)"
    by (simp add: demoSys0_def)
  show ?thesis
    using C2_createReopenRequest [OF demo_t1, of "''u2''" "\<lparr>dto_reason = ''Again''\<rparr>" "''r9''" 100]
          C2_createReopenRequest [OF demo_t2, of "''u2''" "\<lparr>dto_reason = ''Again''\<rparr>" "''r9''" 100]
          C2_createReopenRequest [OF demo_t1, of "''u1''" "\<lparr>dto_reason = ''Again''\<rparr>" "''r9''" 100]
          C2_createReopenRequest [OF demo0_t1, of "''u1''" "\<lparr>dto_reason = ''Again''\<rparr>" "''r9''" 100]
          f p np
    by simp
qed

lemma assignTicket_non_staff_assignee:
  assumes "isStaff userRoles"
      and "supportTicket_findUnique ticketId s = Some t"
      and "user_findUnique a s = Some assignee"
      and "a \<noteq> []"
      and "\<not> isStaff (u_roles assignee)"
  shows "assignTicket ticketId (Some a) userId userRoles now s
           = (Inl (BadRequestException ''Assignee must be a staff member''), s)"
  using assms
  by (simp add: assignTicket_def assignTicket_try_def requireStaff_def catchLog_def)

text \<open>
  Claim C4 says that no create or update operation rejects an input for violating a
  cross-row or state condition. Three operations do, each with a BadRequestException:
  \<open>createReopenRequest\<close> by the owner of the open ticket t2 (a state condition),
  \<open>createReopenRequest\<close> by the owner of the closed ticket t1 that already has a pending
  request (a condition on another row), and \<open>assignTicket\<close> of a ticket to the customer
  u1 (a condition on the assignee's row).
\<close>

theorem C4_conditions_enforced_counterexample:
  "createReopenRequest ''t2'' ''u2'' \<lparr>dto_reason = ''Again''\<rparr> ''r9'' 100 demoSys
     = (Inl (BadRequestException ''Only closed tickets can be reopened''), demoSys)
   \<and> createReopenRequest ''t1'' ''u1'' \<lparr>dto_reason = ''Again''\<rparr> ''r9'' 100 demoSys
     = (Inl (BadRequestException ''A reopen request is already pending for this ticket''),
        demoSys)
   \<and> assignTicket ''t2'' (Some ''u1'') ''a1'' [''admin''] 100 demoSys
     = (Inl (BadRequestException ''Assignee must be a staff member''), demoSys)"
proof -
  have u1: "user_findUnique ''u1'' demoSys = Some (demoUser ''u1'' [''user''] 1)"
    by (simp add: demo_defs orm_defs)
  have "assignTicket ''t2'' (Some ''u1'') ''a1'' [''admin''] 100 demoSys
     = (Inl (BadRequestException ''Assignee must be a staff member''), demoSys)"
    by (rule assignTicket_non_staff_assignee [OF _ demo_t2 u1])
       (simp_all add: isStaff_set demoUser_def)
  moreover have "\<exists>r \<in> set (reopenRequests demoSys). rr_ticketId r = ''t1'' \<and> rr_status r = PENDING"
    by (simp add: demoSys_def demoRequest_def)
  ultimately show ?thesis
    by (simp add: createReopenRequest_eq [OF demo_t1] createReopenRequest_eq [OF demo_t2])
       (simp add: demoTicket1_def demoTicket2_def)
qed

text \<open>
  Claim C4, amended. Application code does enforce conditions beyond the relational
  constraints: \<open>createReopenRequest\<close>, called by the ticket's creator, rejects with a
  BadRequestException a ticket that is not CLOSED and a ticket that has a PENDING reopen
  request; \<open>assignTicket\<close>, called by staff on an existing ticket, rejects with a
  BadRequestException an existing assignee without a staff role. The state is unchanged
  in each case.
\<close>

theorem C4_conditions_enforced:
  "(supportTicket_findUnique ticketId s = Some t \<and> t_createdById t = Some userId
      \<and> (t_status t \<noteq> CLOSED
           \<or> (\<exists>r \<in> set (reopenRequests s). rr_ticketId r = ticketId \<and> rr_status r = PENDING)) \<longrightarrow>
      (\<exists>m. createReopenRequest ticketId userId dto newId now s
             = (Inl (BadRequestException m), s)))
   \<and> (isStaff userRoles \<and> supportTicket_findUnique ticketId s \<noteq> None
      \<and> user_findUnique a s = Some assignee \<and> a \<noteq> [] \<and> \<not> isStaff (u_roles assignee) \<longrightarrow>
      (\<exists>m. assignTicket ticketId (Some a) userId userRoles now s
             = (Inl (BadRequestException m), s)))"
proof (intro conjI impI)
  assume h: "supportTicket_findUnique ticketId s = Some t \<and> t_createdById t = Some userId
      \<and> (t_status t \<noteq> CLOSED
           \<or> (\<exists>r \<in> set (reopenRequests s). rr_ticketId r = ticketId \<and> rr_status r = PENDING))"
  then have t: "supportTicket_findUnique ticketId s = Some t" by simp
  from h show "\<exists>m. createReopenRequest ticketId userId dto newId now s
             = (Inl (BadRequestException m), s)"
    by (auto simp: createReopenRequest_eq [OF t])
next
  assume h: "isStaff userRoles \<and> supportTicket_findUnique ticketId s \<noteq> None
      \<and> user_findUnique a s = Some assignee \<and> a \<noteq> [] \<and> \<not> isStaff (u_roles assignee)"
  then obtain t where "supportTicket_findUnique ticketId s = Some t" by auto
  with h show "\<exists>m. assignTicket ticketId (Some a) userId userRoles now s
             = (Inl (BadRequestException m), s)"
    using assignTicket_non_staff_assignee by blast
qed

theorem C4_conditions_enforced_witness:
  "(\<exists>m. createReopenRequest ''t2'' ''u2'' \<lparr>dto_reason = ''Again''\<rparr> ''r9'' 100 demoSys
          = (Inl (BadRequestException m), demoSys))
   \<and> (\<exists>m. createReopenRequest ''t1'' ''u1'' \<lparr>dto_reason = ''Again''\<rparr> ''r9'' 100 demoSys
          = (Inl (BadRequestException m), demoSys))
   \<and> (\<exists>m. assignTicket ''t2'' (Some ''u1'') ''a1'' [''admin''] 100 demoSys
          = (Inl (BadRequestException m), demoSys))"
proof -
  have u1: "user_findUnique ''u1'' demoSys = Some (demoUser ''u1'' [''user''] 1)"
    by (simp add: demo_defs orm_defs)
  have f: "t_createdById demoTicket1 = Some ''u1''" "t_status demoTicket1 = CLOSED"
          "t_createdById demoTicket2 = Some ''u2''" "t_status demoTicket2 \<noteq> CLOSED"
          "\<not> isStaff (u_roles (demoUser ''u1'' [''user''] 1))" "isStaff [''admin'']"
    by (simp_all add: demoTicket1_def demoTicket2_def demoUser_def isStaff_set)
  have p: "\<exists>r \<in> set (reopenRequests demoSys). rr_ticketId r = ''t1'' \<and> rr_status r = PENDING"
    by (simp add: demoSys_def demoRequest_def)
  show ?thesis
    using C4_conditions_enforced [of "''t2''" demoSys demoTicket2 "''u2''"
             "\<lparr>dto_reason = ''Again''\<rparr>" "''r9''" 100 "[''admin'']" "''u1''"
             "demoUser ''u1'' [''user''] 1"]
          C4_conditions_enforced [of "''t1''" demoSys demoTicket1 "''u1''"
             "\<lparr>dto_reason = ''Again''\<rparr>" "''r9''" 100 "[''admin'']" "''u1''"
             "demoUser ''u1'' [''user''] 1"]
          C4_conditions_enforced [of "''t2''" demoSys demoTicket2 "''a1''"
             "\<lparr>dto_reason = ''Again''\<rparr>" "''r9''" 100 "[''admin'']" "''u1''"
             "demoUser ''u1'' [''user''] 1"]
          demo_t1 demo_t2 u1 f p
    by simp
qed

section \<open>The audit stub\<close>

lemma logAdminAction_eq:
  "logAdminAction adminUserId action resourceId changes s =
     (Inr (), s\<lparr>plog := plog s @ [LogEntry LLog
        (''Admin action: '' @ action @ '' on resource '' @ resourceId @ '' by admin ''
           @ adminUserId) changes]\<rparr>)"
  by (simp add: logAdminAction_def logger_def)

lemma persistent_logger [simp]: "persistent (logger lv msg args s) = persistent s"
  by (simp add: persistent_def logger_def)

text \<open>
  Claim C6. For every input, \<open>logAdminAction\<close> returns normally, leaves the five tables
  as they were and appends exactly one entry to the process log; \<open>getAuditLogs\<close>
  returns, for every query, an empty \<open>logs\<close> list, \<open>total\<close> 0 and \<open>hasMore\<close> false,
  and leaves the state as it was.
\<close>

theorem C6_audit_logging_is_a_stub:
  "fst (logAdminAction adminUserId action resourceId changes s) = Inr ()
   \<and> persistent (snd (logAdminAction adminUserId action resourceId changes s)) = persistent s
   \<and> plog (snd (logAdminAction adminUserId action resourceId changes s))
       = plog s @ [LogEntry LLog
           (''Admin action: '' @ action @ '' on resource '' @ resourceId @ '' by admin ''
              @ adminUserId) changes]
   \<and> al_logs (fst (getAuditLogs query s)) = []
   \<and> al_total (fst (getAuditLogs query s)) = 0
   \<and> al_hasMore (fst (getAuditLogs query s)) = False
   \<and> snd (getAuditLogs query s) = s"
  by (simp add: logAdminAction_def getAuditLogs_def logger_def persistent_def)

section \<open>The admin status update with the status omitted\<close>

lemma applyUpdateData_id: "applyUpdateData d t = Inr t' \<Longrightarrow> t_id t' = t_id t"
  by (auto simp: applyUpdateData_def split: option.splits sum.splits)

lemma parsePriority_priorityStr [simp]: "parsePriority (priorityStr p) = Some p"
  by (cases p) (simp_all add: parsePriority_def)

lemma priorityStr_nonempty [simp]: "priorityStr p \<noteq> []"
  by (cases p) simp_all

lemma parseTicketStatus_OPEN [simp]: "parseTicketStatus ''OPEN'' = Some OPEN"
  by (simp add: parseTicketStatus_def)

lemma rowFind_rowUpdate_keep:
  "rowFind key i rows = Some r \<Longrightarrow> key (f r) = i \<Longrightarrow>
     rowFind key i (rowUpdate key i f rows) = Some (f r)"
  by (induction rows) (auto simp: rowFind_def rowUpdate_def split: if_splits)

lemma addInternalNote_frame:
  "addInternalNote ticketId content adminUserId noteType newId now s = (r, s') \<Longrightarrow>
     (\<exists>v. r = Inr v) \<and> tickets s' = tickets s"
  by (auto simp: addInternalNote_def ticketReply_create_def logger_def Let_def)

lemma Admin_updateTicketStatus_open:
  assumes t: "supportTicket_findUnique ticketId s = Some t"
  shows "\<exists>res s'. Admin_updateTicketStatus ticketId ''OPEN'' adminUserId
                    (map_option priorityStr prio) reason internalNotes newId now s
                  = (Inr res, s')
           \<and> supportTicket_findUnique ticketId s'
               = Some (t\<lparr>t_status := OPEN,
                         t_priority := (case prio of None \<Rightarrow> t_priority t | Some p \<Rightarrow> p),
                         t_closedAt := None, t_updatedAt := now\<rparr>)"
proof -
  have key: "t_id t = ticketId"
    using t rowFind_Some_key [of t_id ticketId "tickets s" t]
    by (simp add: supportTicket_findUnique_def)
  have r: "rowFind t_id ticketId (tickets s) = Some t"
    using t by (simp add: supportTicket_findUnique_def)
  show ?thesis
    using r key
    by (cases prio; cases "t_closedAt t"; cases internalNotes)
       (simp_all add: Admin_updateTicketStatus_def Admin_updateTicketStatus_try_def Let_def
          truthyStr_def supportTicket_updateWith_def applyUpdateData_def addInternalNote_def
          ticketReply_create_def logAdminAction_def logger_def catchLog_def
          supportTicket_findUnique_def rowFind_rowUpdate_keep)
qed


text \<open>
  Claim C9. The handler of the admin status-update endpoint, called by a user with a staff
  role (the endpoint's role guard, repeated by \<open>requireStaff\<close> in the handler) on an
  existing ticket with a body that omits \<open>status\<close>, passes 'OPEN' to the service: the
  call succeeds, the ticket's status is OPEN afterwards and its \<open>closedAt\<close> is null,
  whatever priority, reason and internal notes the body carries; the priority is the
  body's when it has one and the ticket's old one otherwise.
\<close>

theorem C9_omitted_status_reopens:
  assumes "isStaff (au_roles user)"
      and "supportTicket_findUnique ticketId s = Some t"
      and "b_status body = None"
  shows "\<exists>res s'. AdminController_updateTicketStatus ticketId body user newId now s = (res, s')
           \<and> res_success res
           \<and> (\<exists>t'. supportTicket_findUnique ticketId s' = Some t'
                 \<and> t_status t' = OPEN \<and> t_closedAt t' = None
                 \<and> t_priority t'
                     = (case b_priority body of None \<Rightarrow> t_priority t | Some p \<Rightarrow> p))"
proof -
  obtain res s' where
    r: "Admin_updateTicketStatus ticketId ''OPEN'' (au_id user)
          (map_option priorityStr (b_priority body)) (b_reason body) (b_internalNotes body)
          newId now s = (Inr res, s')"
    and f: "supportTicket_findUnique ticketId s'
             = Some (t\<lparr>t_status := OPEN,
                       t_priority := (case b_priority body of None \<Rightarrow> t_priority t
                                      | Some p \<Rightarrow> p),
                       t_closedAt := None, t_updatedAt := now\<rparr>)"
    using Admin_updateTicketStatus_open [OF assms(2)] by blast
  have "AdminController_updateTicketStatus ticketId body user newId now s
          = (createSuccessResponse ''Ticket status updated successfully'' res, s')"
    using assms(1,3) r
    by (simp add: AdminController_updateTicketStatus_def requireStaff_def)
  with f show ?thesis
    by (simp add: createSuccessResponse_def)
qed

theorem C9_omitted_status_reopens_witness:
  "\<exists>res s'. AdminController_updateTicketStatus ''t1''
               \<lparr>b_status = None, b_priority = Some URGENT, b_reason = None,
                b_internalNotes = Some ''checked''\<rparr>
               \<lparr>au_id = ''a1'', au_roles = [''admin'']\<rparr> ''n1'' 100 demoSys = (res, s')
      \<and> res_success res
      \<and> (\<exists>t'. supportTicket_findUnique ''t1'' s' = Some t'
            \<and> t_status t' = OPEN \<and> t_closedAt t' = None \<and> t_priority t' = URGENT)
      \<and> t_status demoTicket1 = CLOSED \<and> t_closedAt demoTicket1 = Some 50"
proof -
  have h: "isStaff (au_roles \<lparr>au_id = ''a1'', au_roles = [''admin'']\<rparr>)"
          "b_status \<lparr>b_status = None, b_priority = Some URGENT, b_reason = None,
                b_internalNotes = Some ''checked''\<rparr> = None"
    by (simp_all add: isStaff_set)
  have d: "t_status demoTicket1 = CLOSED" "t_closedAt demoTicket1 = Some 50"
    by (simp_all add: demoTicket1_def)
  from C9_omitted_status_reopens [OF h(1) demo_t1 h(2), of "''n1''" 100] d
  show ?thesis by simp
qed

section \<open>The delete operations\<close>

text \<open>
  Whatever \<open>findById\<close> is and whatever the call returns, \<open>deleteUser\<close> leaves every
  user row in place with every column but \<open>updatedAt\<close> as it was.
\<close>

lemma user_update_columns:
  "user_update i (\<lambda>u. u\<lparr>u_updatedAt := now\<rparr>) now s = (r, s') \<Longrightarrow>
     users s' = map (\<lambda>u. if u_id u = i then u\<lparr>u_updatedAt := now\<rparr> else u) (users s)
     \<or> users s' = users s"
  by (auto simp: user_update_def rowUpdate_def split: option.splits)

lemma deleteUser_keeps_rows:
  assumes "deleteUser findById ident adminId now s = (r, s')"
  shows "map (\<lambda>u. u\<lparr>u_updatedAt := 0\<rparr>) (users s') = map (\<lambda>u. u\<lparr>u_updatedAt := 0\<rparr>) (users s)"
proof -
  obtain r1 s1 where u: "user_update ident (\<lambda>u. u\<lparr>u_updatedAt := now\<rparr>) now s = (r1, s1)"
    by (meson surj_pair)
  have "users s' = users s1 \<or> users s' = users s"
    using assms u
    by (auto simp: deleteUser_def deleteUser_try_def logger_def
             split: option.splits sum.splits if_splits)
  moreover have "map (\<lambda>u. u\<lparr>u_updatedAt := 0\<rparr>) (users s1)
                   = map (\<lambda>u. u\<lparr>u_updatedAt := 0\<rparr>) (users s)"
    using user_update_columns [OF u] by auto
  ultimately show ?thesis by auto
qed

lemma rowFind_rowDelete: "rowFind key i (rowDelete key i rows) = None"
  by (simp add: rowFind_def rowDelete_def find_None_iff)

lemma deleteContactMessage_removes:
  assumes "contactMessage_findUnique ident s = Some m"
  shows "deleteContactMessage ident now s
           = (Inr \<lparr>dm_id = ident, dm_deletedAt = now\<rparr>,
              logger LInfo (''Contact message deleted: '' @ ident) []
                (s\<lparr>contactMessages := rowDelete cm_id ident (contactMessages s)\<rparr>))"
    and "contactMessage_findUnique ident (snd (deleteContactMessage ident now s)) = None"
  using assms
  by (simp_all add: deleteContactMessage_def contactMessage_delete_def logger_def
        contactMessage_findUnique_def rowFind_rowDelete)

lemma Admin_deleteTicket_closes:
  assumes "supportTicket_findUnique ticketId s = Some t"
  shows "fst (Admin_deleteTicket ticketId adminUserId reason now s) = Inr ()"
    and "supportTicket_findUnique ticketId (snd (Admin_deleteTicket ticketId adminUserId reason now s))
           = Some (t\<lparr>t_status := CLOSED, t_closedAt := Some now, t_updatedAt := now\<rparr>)"
  using assms
  by (simp_all add: Admin_deleteTicket_def supportTicket_update_def logAdminAction_def
        logger_def supportTicket_findUnique_def rowFind_rowUpdate_same)

text \<open>
  Claim C5 says that each delete operation removes its target or marks it as deleted.
  \<open>deleteContactMessage\<close> removes the row and \<open>deleteTicket\<close> marks the ticket
  CLOSED with a \<open>closedAt\<close> date, but \<open>deleteUser\<close> does neither: called by the
  administrator a1 on the existing user u1 it returns normally and the user's row is
  still there, with status ACTIVE and no metadata; only \<open>updatedAt\<close> has changed.
\<close>

theorem C5_deleteUser_leaves_user_in_place:
  "fst (deleteUser user_findUnique ''u1'' ''a1'' 100 demoSys) = Inr ()
   \<and> users (snd (deleteUser user_findUnique ''u1'' ''a1'' 100 demoSys))
       = [(demoUser ''u1'' [''user''] 1)\<lparr>u_updatedAt := 100\<rparr>, demoUser ''u2'' [''user''] 2,
          demoUser ''a1'' [''admin''] 3]
   \<and> u_status ((demoUser ''u1'' [''user''] 1)\<lparr>u_updatedAt := 100\<rparr>) = ACTIVE
   \<and> u_metadata ((demoUser ''u1'' [''user''] 1)\<lparr>u_updatedAt := 100\<rparr>) = None
   \<and> contactMessage_findUnique ''m1'' demoSys = Some demoMessage
   \<and> contactMessages (snd (deleteContactMessage ''m1'' 100 demoSys)) = []
   \<and> supportTicket_findUnique ''t2'' (snd (Admin_deleteTicket ''t2'' ''a1'' ''spam'' 100 demoSys))
       = Some (demoTicket2\<lparr>t_status := CLOSED, t_closedAt := Some 100, t_updatedAt := 100\<rparr>)"
proof -
  have m: "contactMessage_findUnique ''m1'' demoSys = Some demoMessage"
    by (simp add: demo_defs orm_defs)
  have a: "fst (deleteUser user_findUnique ''u1'' ''a1'' 100 demoSys) = Inr ()"
          "users (snd (deleteUser user_findUnique ''u1'' ''a1'' 100 demoSys))
       = [(demoUser ''u1'' [''user''] 1)\<lparr>u_updatedAt := 100\<rparr>, demoUser ''u2'' [''user''] 2,
          demoUser ''a1'' [''admin''] 3]"
    by (simp_all add: deleteUser_def deleteUser_try_def user_update_def logger_def
          demo_defs orm_defs)
  have b: "contactMessages (snd (deleteContactMessage ''m1'' 100 demoSys)) = []"
    by (simp add: deleteContactMessage_removes(1) [OF m] logger_def rowDelete_def)
       (simp add: demo_defs)
  show ?thesis
    using a b m Admin_deleteTicket_closes(2) [OF demo_t2, of "''a1''" "''spam''" 100]
    by (simp add: demoUser_def)
qed

section \<open>User growth per day\<close>
















section \<open>The admin service's reopen path\<close>

text \<open>
  Unlike \<open>SupportTicketsService.processReopenRequest\<close>, the admin service's method
  does not look at the request's status: approving an existing request whose ticket exists
  succeeds and leaves the request APPROVED and the ticket OPEN, also when the request had
  been processed before.
\<close>

lemma Admin_processReopenRequest_any_status:
  assumes "ticketReopenRequest_findUnique requestId s = Some r"
      and "supportTicket_findUnique (rr_ticketId r) s = Some t"
  shows "\<exists>r' s'. Admin_processReopenRequest requestId True adminUserId reason now s
                  = (Inr r', s')
           \<and> rr_status r' = APPROVED
           \<and> supportTicket_findUnique (rr_ticketId r) s'
               = Some (t\<lparr>t_status := OPEN, t_closedAt := None, t_updatedAt := now\<rparr>)"
  using assms
  by (simp add: Admin_processReopenRequest_def ticketReopenRequest_update_def
        supportTicket_update_def logAdminAction_def logger_def Let_def
        ticketReopenRequest_findUnique_def supportTicket_findUnique_def
        rowFind_rowUpdate_same)

lemma Admin_processReopenRequest_rejected_example:
  "\<exists>r' s'. Admin_processReopenRequest ''r0'' True ''a1'' None 100 demoSys = (Inr r', s')
      \<and> rr_status r' = APPROVED"
  using Admin_processReopenRequest_any_status [OF demo_r0, of demoTicket1 "''a1''" None 100]
        demo_t1
  by (auto simp: demoRequest_def)

end
